theory Spec2Isabelle
  imports Complex_Main
begin

section \<open>Python values, exceptions and dictionaries\<close>

text \<open>
  The adapter in \<^verbatim>\<open>langchain_weaviate/vectorstores.py\<close> moves dynamically typed
  values between the caller, the embedding provider and the Weaviate client. A value is
  one of the shapes below; a \<^verbatim>\<open>datetime.datetime\<close> is represented by the text its
  \<^verbatim>\<open>isoformat()\<close> gives, a dense vector by its list of numbers. A \<^verbatim>\<open>dict\<close> with string
  keys is a partial map. Every \<^verbatim>\<open>raise\<close> of the source, and every exception that Python
  itself raises on a path of the source, is a constructor of \<open>error\<close>; a call returns
  \<open>Inl\<close> of the exception or \<open>Inr\<close> of its value.
\<close>

datatype pyval =
    PNone
  | PBool bool
  | PInt int
  | PFloat real
  | PStr string
  | PDatetime string
  | PVec "real list"
  | PList "pyval list"

datatype error =
    ValueError string
  | AssertionError string
  | KeyError string
  | IndexError
  | TypeError string
  | AttributeError string
  | WeaviateQueryException string
  | OtherException string

type_synonym pydict = "string \<rightharpoonup> pyval"

section \<open>Module-level helpers\<close>

text \<open>\<^verbatim>\<open>np.clip(a, a_min, a_max)\<close> is \<^verbatim>\<open>minimum(a_max, maximum(a, a_min))\<close>.\<close>

definition np_clip :: "real \<Rightarrow> real \<Rightarrow> real \<Rightarrow> real" where
  "np_clip a a_min a_max = min a_max (max a a_min)"

text \<open>
  \<^verbatim>\<open>_default_score_normalizer\<close>, over the real numbers: the rounding of IEEE doubles
  is not part of the model.
\<close>

definition default_score_normalizer :: "real \<Rightarrow> real" where
  "default_score_normalizer val =
     (let val' = np_clip val (- 709) 709 in 1 - 1 / (1 + exp val'))"

text \<open>\<^verbatim>\<open>_json_serializable\<close>: a datetime becomes its ISO text, anything else is kept.\<close>

fun json_serializable :: "pyval \<Rightarrow> pyval" where
  "json_serializable (PDatetime isoformat) = PStr isoformat"
| "json_serializable v = v"

section \<open>The store and its collaborators\<close>

text \<open>
  The embedding provider (\<^verbatim>\<open>langchain_core.embeddings.Embeddings\<close>) is external: two
  functions. \<^verbatim>\<open>similarity_search_by_vector\<close> passes \<^verbatim>\<open>query=None\<close>, so a query is an
  optional string.
\<close>

record embedder =
  embed_documents :: "string list \<Rightarrow> real list list"
  embed_query :: "string option \<Rightarrow> real list"

text \<open>The fields \<^verbatim>\<open>__init__\<close> sets on \<^verbatim>\<open>WeaviateVectorStore\<close>.\<close>

record store =
  index_name :: string
  text_key :: string
  embedding :: "embedder option"
  query_attrs :: "string list"
  relevance_score_fn :: "(real \<Rightarrow> real) option"
  multi_tenancy_enabled :: bool

definition select_relevance_score_fn :: "store \<Rightarrow> real \<Rightarrow> real" where
  "select_relevance_score_fn st =
     (case relevance_score_fn st of Some f \<Rightarrow> f | None \<Rightarrow> default_score_normalizer)"

text \<open>
  An object of a query result, as the Weaviate client returns it: \<^verbatim>\<open>obj.properties\<close>,
  \<^verbatim>\<open>obj.metadata.__dict__\<close> (a field that is \<^verbatim>\<open>None\<close> is mapped to \<open>PNone\<close>),
  \<^verbatim>\<open>obj.vector\<close> (a dict of named vectors, kept as an association list so that its
  truth value, non-emptiness, can be computed) and \<^verbatim>\<open>obj.uuid\<close>.
\<close>

record engine_object =
  obj_properties :: pydict
  obj_metadata :: pydict
  obj_vector :: "(string \<times> real list) list"
  obj_uuid :: string

text \<open>
  The three query calls of the client, with the keyword arguments the adapter passes:
  the query text, the query vector (hybrid only; \<open>None\<close> when the keyword is omitted),
  \<^verbatim>\<open>limit\<close>, \<^verbatim>\<open>return_properties\<close> when the caller gave it, and the remaining keyword
  arguments in order.
\<close>

datatype engine_query =
    Hybrid "string option" "real list option" int "string list option" "(string \<times> pyval) list"
  | Near_vector int "string list option" "(string \<times> pyval) list"
  | Near_text "string option" int "string list option" "(string \<times> pyval) list"

text \<open>
  What a query call does: it returns objects, raises
  \<^verbatim>\<open>weaviate.exceptions.WeaviateQueryException\<close> (with the text \<^verbatim>\<open>str(e)\<close> gives), or
  raises some other exception. The engine is a function of the tenant the collection
  handle is bound to and of the query.
\<close>

datatype engine_response =
    Objects "engine_object list"
  | Raises_WeaviateQueryException string
  | Raises_other string

type_synonym engine = "string option \<Rightarrow> engine_query \<Rightarrow> engine_response"

text \<open>
  \<^verbatim>\<open>langchain_core.documents.Document\<close>, as the pair of its two fields; the type
  validation of its constructor is not part of the model.
\<close>

record document =
  page_content :: pyval
  metadata :: pydict

text \<open>
  \<^verbatim>\<open>_perform_search\<close> returns \<^verbatim>\<open>Document\<close>s, or pairs of a \<^verbatim>\<open>Document\<close> and a score
  when \<^verbatim>\<open>return_score\<close> is set. The score is the string the source builds.
\<close>

datatype search_hit = Doc document | Scored document string

text \<open>The document of a hit: the hit itself, or the first component of the pair.\<close>

fun hit_document :: "search_hit \<Rightarrow> document" where
  "hit_document (Doc d) = d"
| "hit_document (Scored d s) = d"

section \<open>Tenant scope\<close>

text \<open>
  \<^verbatim>\<open>_tenant_context\<close>: the two checks, then the collection handle bound to the tenant
  (\<^verbatim>\<open>self._collection.with_tenant(tenant)\<close>), which the model identifies with the
  tenant it is bound to.
\<close>

definition tenant_context :: "store \<Rightarrow> string option \<Rightarrow> error + string option" where
  "tenant_context st tenant =
     (if tenant \<noteq> None \<and> \<not> multi_tenancy_enabled st then
        Inl (ValueError ''Cannot use tenant context when multi-tenancy is not enabled'')
      else if tenant = None \<and> multi_tenancy_enabled st then
        Inl (ValueError ''Must use tenant context when multi-tenancy is enabled'')
      else Inr tenant)"

section \<open>Search\<close>

text \<open>
  The dict comprehension of \<^verbatim>\<open>_perform_search\<close> that keeps the metadata fields which
  are not \<^verbatim>\<open>None\<close>.
\<close>

definition filtered_metadata :: "pydict \<Rightarrow> pydict" where
  "filtered_metadata md = (\<lambda>k. case md k of Some PNone \<Rightarrow> None | r \<Rightarrow> r)"

text \<open>
  \<^verbatim>\<open>{"vector": obj.vector["default"]} if obj.vector else {}\<close>: a non-empty dict of
  vectors without the name \<^verbatim>\<open>default\<close> raises \<^verbatim>\<open>KeyError\<close>.
\<close>

definition vector_entry :: "engine_object \<Rightarrow> error + pydict" where
  "vector_entry obj =
     (if obj_vector obj = [] then Inr Map.empty
      else case map_of (obj_vector obj) ''default'' of
             None \<Rightarrow> Inl (KeyError ''default'')
           | Some v \<Rightarrow> Inr [''vector'' \<mapsto> PVec v])"

definition uuid_entry :: "bool \<Rightarrow> engine_object \<Rightarrow> pydict" where
  "uuid_entry return_uuids obj =
     (if return_uuids then [''uuid'' \<mapsto> PStr (obj_uuid obj)] else Map.empty)"

text \<open>
  \<^verbatim>\<open>str(obj.metadata.score) + ": " + str(obj.metadata.explain_score)\<close>. Python's
  \<^verbatim>\<open>str\<close> is a parameter; a metadata object without the attribute raises
  \<^verbatim>\<open>AttributeError\<close>.
\<close>

definition score_text :: "(pyval \<Rightarrow> string) \<Rightarrow> engine_object \<Rightarrow> error + string" where
  "score_text str_of obj =
     (case obj_metadata obj ''score'' of
        None \<Rightarrow> Inl (AttributeError ''score'')
      | Some s \<Rightarrow>
          (case obj_metadata obj ''explain_score'' of
             None \<Rightarrow> Inl (AttributeError ''explain_score'')
           | Some e \<Rightarrow> Inr (str_of s @ '': '' @ str_of e)))"

text \<open>
  The body of the loop over \<^verbatim>\<open>result.objects\<close>: \<^verbatim>\<open>pop\<close> the text key (\<^verbatim>\<open>KeyError\<close>
  when it is absent), merge the remaining properties, the filtered metadata, the vector
  and the uuid (later entries win), build the \<^verbatim>\<open>Document\<close>, and pair it with the score
  text when \<^verbatim>\<open>return_score\<close> is set.
\<close>

definition normalize_object ::
  "(pyval \<Rightarrow> string) \<Rightarrow> string \<Rightarrow> bool \<Rightarrow> bool \<Rightarrow> engine_object \<Rightarrow> error + search_hit" where
  "normalize_object str_of tk return_score return_uuids obj =
     (case obj_properties obj tk of
        None \<Rightarrow> Inl (KeyError tk)
      | Some text \<Rightarrow>
          (case vector_entry obj of
             Inl e \<Rightarrow> Inl e
           | Inr vec \<Rightarrow>
               (let merged_props =
                      (obj_properties obj)(tk := None) ++ filtered_metadata (obj_metadata obj)
                        ++ vec ++ uuid_entry return_uuids obj;
                    doc = \<lparr>page_content = text, metadata = merged_props\<rparr>
                in if \<not> return_score then Inr (Doc doc)
                   else (case score_text str_of obj of
                           Inl e \<Rightarrow> Inl e
                         | Inr score \<Rightarrow> Inr (Scored doc score)))))"

text \<open>The loop itself: the first exception ends it.\<close>

fun collect_docs :: "(engine_object \<Rightarrow> error + search_hit) \<Rightarrow> engine_object list \<Rightarrow> error + search_hit list" where
  "collect_docs f [] = Inr []"
| "collect_docs f (obj # objs) =
     (case f obj of
        Inl e \<Rightarrow> Inl e
      | Inr d \<Rightarrow> (case collect_docs f objs of Inl e \<Rightarrow> Inl e | Inr ds \<Rightarrow> Inr (d # ds)))"

text \<open>
  The \<^verbatim>\<open>if\<close>/\<^verbatim>\<open>elif\<close> chain inside the \<^verbatim>\<open>try\<close> block of \<^verbatim>\<open>_perform_search\<close>: which
  query is sent for a search method. \<^verbatim>\<open>search_method\<close> is a plain string at run time.
\<close>

definition dispatch_query ::
  "store \<Rightarrow> string option \<Rightarrow> int \<Rightarrow> string option \<Rightarrow> string \<Rightarrow> string list option \<Rightarrow>
     (string \<times> pyval) list \<Rightarrow> error + engine_query" where
  "dispatch_query st query k keyword_query search_method props others =
     (if search_method = ''hybrid'' then
        (case embedding st of
           Some emb \<Rightarrow>
             (let v = embed_query emb query;
                  query' = (if keyword_query \<noteq> None then keyword_query else query)
              in Inr (Hybrid query' (Some v) k props others))
         | None \<Rightarrow> Inr (Hybrid query None k props others))
      else if search_method = ''near_vector'' then Inr (Near_vector k props others)
      else if search_method = ''near_text'' then Inr (Near_text query k props others)
      else Inl (ValueError (''Invalid search method: '' @ search_method)))"

text \<open>
  The keyword arguments \<^verbatim>\<open>_perform_search\<close> looks at: \<^verbatim>\<open>return_properties\<close> gets the
  text key appended when it lacks it, \<^verbatim>\<open>return_uuids\<close> is popped (default \<^verbatim>\<open>False\<close>),
  the others go to the client untouched.
\<close>

definition with_text_key :: "string \<Rightarrow> string list option \<Rightarrow> string list option" where
  "with_text_key tk props =
     (case props of
        None \<Rightarrow> None
      | Some ps \<Rightarrow> if tk \<notin> set ps then Some (ps @ [tk]) else Some ps)"

text \<open>
  \<^verbatim>\<open>_perform_search\<close>. The result is paired with the engine calls that were issued, in
  order: each is the tenant of the collection handle and the query.
\<close>

definition perform_search ::
  "engine \<Rightarrow> (pyval \<Rightarrow> string) \<Rightarrow> store \<Rightarrow> string option \<Rightarrow> int \<Rightarrow> string option \<Rightarrow> bool \<Rightarrow>
     string \<Rightarrow> string option \<Rightarrow> string list option \<Rightarrow> bool \<Rightarrow> (string \<times> pyval) list \<Rightarrow>
     (error + search_hit list) \<times> (string option \<times> engine_query) list" where
  "perform_search eng str_of st query k keyword_query return_score search_method tenant
       return_properties return_uuids others =
     (if search_method \<noteq> ''near_text'' \<and> Option.is_none (embedding st) then
        (Inl (ValueError
           ''_embedding cannot be None for similarity_search if search_method is not near_text''), [])
      else
        (let props = with_text_key (text_key st) return_properties in
         case tenant_context st tenant of
           Inl e \<Rightarrow> (Inl e, [])
         | Inr collection \<Rightarrow>
             (case dispatch_query st query k keyword_query search_method props others of
                Inl e \<Rightarrow> (Inl e, [])
              | Inr q \<Rightarrow>
                  (case eng collection q of
                     Raises_WeaviateQueryException e \<Rightarrow>
                       (Inl (ValueError (''Error during query: '' @ e)), [(collection, q)])
                   | Raises_other e \<Rightarrow> (Inl (OtherException e), [(collection, q)])
                   | Objects objs \<Rightarrow>
                       (collect_docs
                          (normalize_object str_of (text_key st) return_score return_uuids) objs,
                        [(collection, q)])))))"

section \<open>The public search methods\<close>

text \<open>
  The keyword arguments a caller may add to a public method and that this layer reads
  or forwards: those that bind parameters of \<^verbatim>\<open>_perform_search\<close>
  (\<^verbatim>\<open>search_method\<close>, \<^verbatim>\<open>keyword_query\<close>, \<^verbatim>\<open>return_score\<close>, \<^verbatim>\<open>tenant\<close>), the two it
  inspects, and the others. A keyword that a method also passes itself makes Python
  raise \<^verbatim>\<open>TypeError\<close> (multiple values for a keyword argument); the constructor carries
  the keyword.
\<close>

record kwargs =
  kw_search_method :: "string option"
  kw_keyword_query :: "string option"
  kw_return_score :: "bool option"
  kw_tenant :: "string option"
  kw_return_properties :: "string list option"
  kw_return_uuids :: bool
  kw_others :: "(string \<times> pyval) list"

definition truthy :: "bool option \<Rightarrow> bool" where
  "truthy b = (case b of Some v \<Rightarrow> v | None \<Rightarrow> False)"

text \<open>
  \<^verbatim>\<open>similarity_search\<close>: \<^verbatim>\<open>keyword_query\<close> is a parameter of the method itself, so
  the field \<open>kw_keyword_query\<close> is not read.
\<close>

definition similarity_search ::
  "engine \<Rightarrow> (pyval \<Rightarrow> string) \<Rightarrow> store \<Rightarrow> string \<Rightarrow> int \<Rightarrow> string option \<Rightarrow> kwargs \<Rightarrow>
     (error + search_hit list) \<times> (string option \<times> engine_query) list" where
  "similarity_search eng str_of st query k keyword_query kw =
     (let search_method = (case kw_search_method kw of Some m \<Rightarrow> m | None \<Rightarrow> ''hybrid'')
      in perform_search eng str_of st (Some query) k keyword_query (truthy (kw_return_score kw))
           search_method (kw_tenant kw) (kw_return_properties kw) (kw_return_uuids kw)
           (kw_others kw))"

definition similarity_search_by_vector ::
  "engine \<Rightarrow> (pyval \<Rightarrow> string) \<Rightarrow> store \<Rightarrow> real list \<Rightarrow> int \<Rightarrow> kwargs \<Rightarrow>
     (error + search_hit list) \<times> (string option \<times> engine_query) list" where
  "similarity_search_by_vector eng str_of st embedding_vector k kw =
     (if kw_search_method kw \<noteq> None then (Inl (TypeError ''search_method''), [])
      else if ''near_vector'' \<in> set (map fst (kw_others kw)) then
        (Inl (TypeError ''near_vector''), [])
      else perform_search eng str_of st None k (kw_keyword_query kw)
             (truthy (kw_return_score kw)) ''near_vector'' (kw_tenant kw)
             (kw_return_properties kw) (kw_return_uuids kw)
             ((''near_vector'', PVec embedding_vector) # kw_others kw))"

definition similarity_search_with_score ::
  "engine \<Rightarrow> (pyval \<Rightarrow> string) \<Rightarrow> store \<Rightarrow> string \<Rightarrow> int \<Rightarrow> kwargs \<Rightarrow>
     (error + search_hit list) \<times> (string option \<times> engine_query) list" where
  "similarity_search_with_score eng str_of st query k kw =
     (if kw_return_score kw \<noteq> None then (Inl (TypeError ''return_score''), [])
      else perform_search eng str_of st (Some query) k (kw_keyword_query kw) True
             (case kw_search_method kw of Some m \<Rightarrow> m | None \<Rightarrow> ''hybrid'') (kw_tenant kw)
             (kw_return_properties kw) (kw_return_uuids kw) (kw_others kw))"

subsection \<open>Maximal marginal relevance\<close>

text \<open>
  \<^verbatim>\<open>[result.metadata["vector"] for result in results]\<close>: a pair of a document and a
  score has no attribute \<^verbatim>\<open>metadata\<close>, a document without the key raises \<^verbatim>\<open>KeyError\<close>.
\<close>

fun result_vectors :: "search_hit list \<Rightarrow> error + pyval list" where
  "result_vectors [] = Inr []"
| "result_vectors (Scored d s # rs) = Inl (AttributeError ''metadata'')"
| "result_vectors (Doc d # rs) =
     (case metadata d ''vector'' of
        None \<Rightarrow> Inl (KeyError ''vector'')
      | Some v \<Rightarrow> (case result_vectors rs of Inl e \<Rightarrow> Inl e | Inr vs \<Rightarrow> Inr (v # vs)))"

text \<open>
  The loop over \<^verbatim>\<open>mmr_selected\<close>. \<^verbatim>\<open>results[idx].metadata.pop("vector")\<close> changes the
  dict of the result in place (\<open>without_vector\<close>), so the list of results is threaded
  through the loop; an index past the end raises \<^verbatim>\<open>IndexError\<close>, a second \<^verbatim>\<open>pop\<close> on
  the same result raises \<^verbatim>\<open>KeyError\<close>.
\<close>

definition without_vector :: "document \<Rightarrow> document" where
  "without_vector d = d\<lparr>metadata := (metadata d)(''vector'' := None)\<rparr>"

fun mmr_collect :: "search_hit list \<Rightarrow> nat list \<Rightarrow> error + document list" where
  "mmr_collect results [] = Inr []"
| "mmr_collect results (idx # rest) =
     (if length results \<le> idx then Inl IndexError
      else (case results ! idx of
              Scored d s \<Rightarrow> Inl (AttributeError ''page_content'')
            | Doc d \<Rightarrow>
                (case metadata d ''vector'' of
                   None \<Rightarrow> Inl (KeyError ''vector'')
                 | Some v \<Rightarrow>
                     (let d' = without_vector d in
                      case mmr_collect (results[idx := Doc d']) rest of
                        Inl e \<Rightarrow> Inl e
                      | Inr docs \<Rightarrow>
                          Inr (\<lparr>page_content = page_content d, metadata = metadata d'\<rparr> # docs)))))"

text \<open>
  \<^verbatim>\<open>max_marginal_relevance_search_by_vector\<close>. The re-ranker
  \<^verbatim>\<open>maximal_marginal_relevance\<close> lives in \<^verbatim>\<open>utils.py\<close>; here it is the parameter \<open>mmr\<close>,
  from the query vector, the candidate vectors, \<^verbatim>\<open>k\<close> and \<^verbatim>\<open>lambda_mult\<close> to the selected
  indices.
\<close>

definition max_marginal_relevance_search_by_vector ::
  "engine \<Rightarrow> (pyval \<Rightarrow> string) \<Rightarrow> (real list \<Rightarrow> pyval list \<Rightarrow> int \<Rightarrow> real \<Rightarrow> nat list) \<Rightarrow> store \<Rightarrow>
     real list \<Rightarrow> int \<Rightarrow> int \<Rightarrow> real \<Rightarrow> kwargs \<Rightarrow>
     (error + document list) \<times> (string option \<times> engine_query) list" where
  "max_marginal_relevance_search_by_vector eng str_of mmr st embedding_vector k fetch_k
       lambda_mult kw =
     (if kw_search_method kw \<noteq> None then (Inl (TypeError ''search_method''), [])
      else if ''include_vector'' \<in> set (map fst (kw_others kw)) then
        (Inl (TypeError ''include_vector''), [])
      else if ''near_vector'' \<in> set (map fst (kw_others kw)) then
        (Inl (TypeError ''near_vector''), [])
      else
        (case perform_search eng str_of st None fetch_k (kw_keyword_query kw)
                (truthy (kw_return_score kw)) ''near_vector'' (kw_tenant kw)
                (kw_return_properties kw) (kw_return_uuids kw)
                ((''include_vector'', PBool True) # (''near_vector'', PVec embedding_vector)
                   # kw_others kw) of
           (Inl e, calls) \<Rightarrow> (Inl e, calls)
         | (Inr results, calls) \<Rightarrow>
             (case result_vectors results of
                Inl e \<Rightarrow> (Inl e, calls)
              | Inr embeddings \<Rightarrow>
                  (mmr_collect results (mmr embedding_vector embeddings k lambda_mult),
                   calls))))"

definition max_marginal_relevance_search ::
  "engine \<Rightarrow> (pyval \<Rightarrow> string) \<Rightarrow> (real list \<Rightarrow> pyval list \<Rightarrow> int \<Rightarrow> real \<Rightarrow> nat list) \<Rightarrow> store \<Rightarrow>
     string \<Rightarrow> int \<Rightarrow> int \<Rightarrow> real \<Rightarrow> kwargs \<Rightarrow>
     (error + document list) \<times> (string option \<times> engine_query) list" where
  "max_marginal_relevance_search eng str_of mmr st query k fetch_k lambda_mult kw =
     (case embedding st of
        Some emb \<Rightarrow>
          max_marginal_relevance_search_by_vector eng str_of mmr st
            (embed_query emb (Some query)) k fetch_k lambda_mult kw
      | None \<Rightarrow>
          (Inl (ValueError
             ''max_marginal_relevance_search requires a suitable Embeddings object''), []))"

section \<open>Delete\<close>

text \<open>
  \<^verbatim>\<open>delete\<close>. Building the id filter is local; the one engine call is
  \<^verbatim>\<open>collection.data.delete_many\<close>, a parameter that may raise. The result is paired with
  the engine calls issued: the tenant of the handle and the ids.
\<close>

definition delete ::
  "(string option \<Rightarrow> string list \<Rightarrow> error option) \<Rightarrow> store \<Rightarrow> string list option \<Rightarrow> string option \<Rightarrow>
     (error + unit) \<times> (string option \<times> string list) list" where
  "delete delete_many st ids tenant =
     (case ids of
        None \<Rightarrow> (Inl (ValueError ''No ids provided to delete.''), [])
      | Some id_list \<Rightarrow>
          (case tenant_context st tenant of
             Inl e \<Rightarrow> (Inl e, [])
           | Inr collection \<Rightarrow>
               (case delete_many collection id_list of
                  Some e \<Rightarrow> (Inl e, [(collection, id_list)])
                | None \<Rightarrow> (Inr (), [(collection, id_list)]))))"

section \<open>Ingestion\<close>

text \<open>
  \<^verbatim>\<open>_does_tenant_exist\<close>: the assertion, then membership in the tenants the engine
  lists (\<^verbatim>\<open>self._collection.tenants.get()\<close>, a parameter).
\<close>

definition does_tenant_exist :: "store \<Rightarrow> string list \<Rightarrow> string \<Rightarrow> error + bool" where
  "does_tenant_exist st tenants tenant =
     (if \<not> multi_tenancy_enabled st then
        Inl (AssertionError
          ''Cannot check for tenant existence when multi-tenancy is not enabled'')
      else Inr (tenant \<in> set tenants))"

datatype log_level = INFO | ERROR

text \<open>What \<^verbatim>\<open>batch.add_object\<close> is called with.\<close>

record batch_object =
  bo_collection :: string
  bo_properties :: pydict
  bo_uuid :: string
  bo_vector :: "real list option"
  bo_tenant :: "string option"

text \<open>
  What a call of \<^verbatim>\<open>add_texts\<close> does besides returning: the tenants it creates, the
  objects it hands to the batch, and the lines it logs.
\<close>

record ingestion =
  created_tenants :: "string list"
  batch :: "batch_object list"
  log_lines :: "(log_level \<times> string) list"

text \<open>
  The first statement of \<^verbatim>\<open>add_texts\<close>: \<^verbatim>\<open>if tenant and not
  self._does_tenant_exist(tenant)\<close>. An empty tenant name is false in Python. The result
  is the tenants created and the lines logged.
\<close>

definition tenant_setup ::
  "store \<Rightarrow> string list \<Rightarrow> string option \<Rightarrow> error + (string list \<times> (log_level \<times> string) list)" where
  "tenant_setup st tenants tenant =
     (case tenant of
        None \<Rightarrow> Inr ([], [])
      | Some t \<Rightarrow>
          (if t = [] then Inr ([], [])
           else (case does_tenant_exist st tenants t of
                   Inl e \<Rightarrow> Inl e
                 | Inr exists \<Rightarrow>
                     (if exists then Inr ([], [])
                      else Inr ([t],
                             [(INFO, ''Tenant '' @ t @ '' does not exist in index ''
                                 @ index_name st @ ''. Creating tenant.'')])))))"

text \<open>
  \<^verbatim>\<open>data_properties\<close> of the \<^verbatim>\<open>i\<close>-th text: the text under the text key, then every
  entry of \<^verbatim>\<open>metadatas[i]\<close> written over it (\<^verbatim>\<open>IndexError\<close> past the end of the list).
\<close>

definition data_properties :: "string \<Rightarrow> string \<Rightarrow> pydict list option \<Rightarrow> nat \<Rightarrow> error + pydict" where
  "data_properties tk text metadatas i =
     (case metadatas of
        None \<Rightarrow> Inr [tk \<mapsto> PStr text]
      | Some mds \<Rightarrow>
          (if i < length mds then
             Inr ([tk \<mapsto> PStr text] ++ (\<lambda>key. map_option json_serializable ((mds ! i) key)))
           else Inl IndexError))"

text \<open>
  The id of the \<^verbatim>\<open>i\<close>-th object: \<^verbatim>\<open>kwargs["uuids"][i]\<close>, else \<^verbatim>\<open>kwargs["ids"][i]\<close>, else
  the fresh \<^verbatim>\<open>get_valid_uuid(uuid4())\<close>; the generator is the parameter \<open>uuid4\<close>, indexed
  by the iteration.
\<close>

definition choose_id ::
  "(nat \<Rightarrow> string) \<Rightarrow> string list option \<Rightarrow> string list option \<Rightarrow> nat \<Rightarrow> error + string" where
  "choose_id uuid4 uuids ids i =
     (case uuids of
        Some us \<Rightarrow> (if i < length us then Inr (us ! i) else Inl IndexError)
      | None \<Rightarrow>
          (case ids of
             Some us \<Rightarrow> (if i < length us then Inr (us ! i) else Inl IndexError)
           | None \<Rightarrow> Inr (uuid4 i)))"

text \<open>\<^verbatim>\<open>embeddings[i] if embeddings else None\<close>: an empty list is false in Python.\<close>

definition choose_vector :: "real list list option \<Rightarrow> nat \<Rightarrow> error + real list option" where
  "choose_vector embeddings i =
     (case embeddings of
        None \<Rightarrow> Inr None
      | Some es \<Rightarrow>
          (if es = [] then Inr None
           else if i < length es then Inr (Some (es ! i))
           else Inl IndexError))"

text \<open>One iteration of the loop over \<^verbatim>\<open>enumerate(texts)\<close>, up to the call of \<^verbatim>\<open>add_object\<close>.\<close>

definition make_object ::
  "(nat \<Rightarrow> string) \<Rightarrow> store \<Rightarrow> pydict list option \<Rightarrow> string option \<Rightarrow> string list option \<Rightarrow>
     string list option \<Rightarrow> real list list option \<Rightarrow> nat \<Rightarrow> string \<Rightarrow> error + batch_object" where
  "make_object uuid4 st metadatas tenant uuids ids embeddings i text =
     (case data_properties (text_key st) text metadatas i of
        Inl e \<Rightarrow> Inl e
      | Inr props \<Rightarrow>
          (case choose_id uuid4 uuids ids i of
             Inl e \<Rightarrow> Inl e
           | Inr uid \<Rightarrow>
               (case choose_vector embeddings i of
                  Inl e \<Rightarrow> Inl e
                | Inr v \<Rightarrow>
                    Inr \<lparr>bo_collection = index_name st, bo_properties = props, bo_uuid = uid,
                         bo_vector = v, bo_tenant = tenant\<rparr>)))"

text \<open>
  The loop: the objects added so far and the list \<^verbatim>\<open>ids\<close> are the accumulators, \<open>i\<close>
  is the index \<^verbatim>\<open>enumerate\<close> gives.
\<close>

fun add_loop ::
  "(nat \<Rightarrow> string \<Rightarrow> error + batch_object) \<Rightarrow> nat \<Rightarrow> string list \<Rightarrow> batch_object list \<Rightarrow> string list \<Rightarrow>
     error + (batch_object list \<times> string list)" where
  "add_loop mk i [] added ids = Inr (added, ids)"
| "add_loop mk i (text # texts) added ids =
     (case mk i text of
        Inl e \<Rightarrow> Inl e
      | Inr obj \<Rightarrow> add_loop mk (Suc i) texts (added @ [obj]) (ids @ [bo_uuid obj]))"

text \<open>
  \<^verbatim>\<open>self._client.batch.failed_objects\<close> after the batch: the engine decides which writes
  fail, by the parameter \<open>failure\<close> (position in the batch and object to the reason, if
  the write failed). Each failed object is its \<^verbatim>\<open>original_uuid\<close> and \<^verbatim>\<open>message\<close>.
\<close>

definition failed_objects ::
  "(nat \<Rightarrow> batch_object \<Rightarrow> string option) \<Rightarrow> batch_object list \<Rightarrow> (string \<times> string) list" where
  "failed_objects failure added =
     List.map_filter (\<lambda>(i, obj). map_option (\<lambda>m. (bo_uuid obj, m)) (failure i obj))
       (enumerate 0 added)"

definition err_message :: "string \<times> string \<Rightarrow> string" where
  "err_message f =
     ''Failed to add object: '' @ fst f @ [CHR 0x0A] @ ''Reason: '' @ snd f"

text \<open>
  \<^verbatim>\<open>add_texts\<close>. \<open>uuids\<close> and \<open>ids\<close> are the keyword arguments of those names. An
  exception leaves the method with the tenant step done and nothing reported for the
  batch.
\<close>

definition add_texts ::
  "(nat \<Rightarrow> string) \<Rightarrow> string list \<Rightarrow> (nat \<Rightarrow> batch_object \<Rightarrow> string option) \<Rightarrow> store \<Rightarrow> string list \<Rightarrow>
     pydict list option \<Rightarrow> string option \<Rightarrow> string list option \<Rightarrow> string list option \<Rightarrow>
     (error + string list) \<times> ingestion" where
  "add_texts uuid4 tenants failure st texts metadatas tenant uuids ids =
     (case tenant_setup st tenants tenant of
        Inl e \<Rightarrow> (Inl e, \<lparr>created_tenants = [], batch = [], log_lines = []\<rparr>)
      | Inr (created, info) \<Rightarrow>
          (let embeddings =
                 (case embedding st of
                    Some emb \<Rightarrow> Some (embed_documents emb texts)
                  | None \<Rightarrow> None)
           in case add_loop (make_object uuid4 st metadatas tenant uuids ids embeddings)
                     0 texts [] [] of
                Inl e \<Rightarrow> (Inl e, \<lparr>created_tenants = created, batch = [], log_lines = info\<rparr>)
              | Inr (added, id_list) \<Rightarrow>
                  (Inr id_list,
                   \<lparr>created_tenants = created, batch = added,
                    log_lines = info
                      @ map (\<lambda>f. (ERROR, err_message f)) (failed_objects failure added)\<rparr>)))"

section \<open>Reading a score back as a number\<close>

text \<open>
  Python's \<^verbatim>\<open>float(s)\<close> accepts surrounding white space, a sign, digits with
  underscores, a point, an exponent, and the words \<^verbatim>\<open>inf\<close>, \<^verbatim>\<open>infinity\<close> and \<^verbatim>\<open>nan\<close> in
  any case; outside ASCII it also accepts other decimal digits and white space. So
  every character of a string it accepts is one of those below, or a byte of a
  character outside ASCII. \<open>float_candidate\<close> is this necessary condition: a string
  that fails it makes \<^verbatim>\<open>float\<close> raise \<^verbatim>\<open>ValueError\<close>.
\<close>

definition float_char :: "char \<Rightarrow> bool" where
  "float_char c \<longleftrightarrow>
     c \<in> set ''0123456789+-._eE'' \<or> c \<in> set ''infatyINFATY''
     \<or> c \<in> {CHR '' '', CHR 0x09, CHR 0x0A, CHR 0x0B, CHR 0x0C, CHR 0x0D,
             CHR 0x1C, CHR 0x1D, CHR 0x1E, CHR 0x1F}
     \<or> 128 \<le> (of_char c :: nat)"

definition float_candidate :: "string \<Rightarrow> bool" where
  "float_candidate s \<longleftrightarrow> s \<noteq> [] \<and> list_all float_char s"

section \<open>Concrete stores, providers and engines\<close>

text \<open>
  Inputs on which the theorems below are exercised: a store without an embedding
  provider, one with a provider, one with multi-tenancy enabled; an engine that answers
  every query with one object, one that answers with two, and one whose query call
  raises \<^verbatim>\<open>WeaviateQueryException\<close>; a rendering of values
  as \<^verbatim>\<open>str\<close> would give it; a re-ranker that selects the second candidate, then the
  first; a batch in which the second write fails.
\<close>

definition demo_store :: store where
  "demo_store =
     \<lparr>index_name = ''Docs'', text_key = ''text'', embedding = None, query_attrs = [''text''],
      relevance_score_fn = None, multi_tenancy_enabled = False\<rparr>"

definition demo_embedder :: embedder where
  "demo_embedder =
     \<lparr>embed_documents = map (\<lambda>t. [real (length t), 1]), embed_query = (\<lambda>q. [1, 0])\<rparr>"

definition demo_store_embedded :: store where
  "demo_store_embedded = demo_store\<lparr>embedding := Some demo_embedder\<rparr>"

definition demo_store_tenants :: store where
  "demo_store_tenants = demo_store_embedded\<lparr>multi_tenancy_enabled := True\<rparr>"

definition demo_object :: engine_object where
  "demo_object =
     \<lparr>obj_properties = [''text'' \<mapsto> PStr ''hello'', ''source'' \<mapsto> PStr ''x''],
      obj_metadata =
        [''score'' \<mapsto> PFloat (1 / 2), ''explain_score'' \<mapsto> PStr ''keyword match'',
         ''distance'' \<mapsto> PNone],
      obj_vector = [(''default'', [1, 0])],
      obj_uuid = ''0b5a2c1e-0000-4000-8000-000000000001''\<rparr>"

definition demo_engine :: engine where
  "demo_engine tenant q = Objects [demo_object]"

definition failing_engine :: engine where
  "failing_engine tenant q = Raises_WeaviateQueryException ''deadline exceeded''"

fun demo_str :: "pyval \<Rightarrow> string" where
  "demo_str (PStr s) = s"
| "demo_str (PFloat x) = ''0.5''"
| "demo_str v = ''None''"

definition demo_object2 :: engine_object where
  "demo_object2 =
     \<lparr>obj_properties = [''text'' \<mapsto> PStr ''world'', ''source'' \<mapsto> PStr ''y''],
      obj_metadata = [''score'' \<mapsto> PNone, ''explain_score'' \<mapsto> PNone],
      obj_vector = [(''default'', [0, 1])],
      obj_uuid = ''0b5a2c1e-0000-4000-8000-000000000002''\<rparr>"

definition two_engine :: engine where
  "two_engine tenant q = Objects [demo_object, demo_object2]"

definition demo_mmr :: "real list \<Rightarrow> pyval list \<Rightarrow> int \<Rightarrow> real \<Rightarrow> nat list" where
  "demo_mmr query_vector candidates k lambda_mult = [1, 0]"

definition demo_uuid4 :: "nat \<Rightarrow> string" where
  "demo_uuid4 i = ''0b5a2c1e-0000-4000-8000-00000000000'' @ [char_of (48 + i)]"

definition demo_failure :: "nat \<Rightarrow> batch_object \<Rightarrow> string option" where
  "demo_failure i obj = (if i = 1 then Some ''disk full'' else None)"

definition demo_delete_many :: "string option \<Rightarrow> string list \<Rightarrow> error option" where
  "demo_delete_many tenant ids = None"

definition demo_kwargs :: kwargs where
  "demo_kwargs =
     \<lparr>kw_search_method = None, kw_keyword_query = None, kw_return_score = None,
      kw_tenant = None, kw_return_properties = None, kw_return_uuids = False,
      kw_others = []\<rparr>"

section \<open>The score normalizer\<close>

lemma np_clip_mono: "a \<le> b \<Longrightarrow> np_clip a lo hi \<le> np_clip b lo hi"
  by (simp add: np_clip_def min_def max_def)

lemma np_clip_cases:
  "np_clip x (- 709) 709 = (if x < - 709 then - 709 else if 709 < x then 709 else x)"
  by (simp add: np_clip_def min_def max_def)

lemma normalizer_mono:
  assumes "a \<le> b"
  shows "default_score_normalizer a \<le> default_score_normalizer b"
proof -
  have "np_clip a (- 709) 709 \<le> np_clip b (- 709) 709"
    using assms by (rule np_clip_mono)
  then have "1 + exp (np_clip a (- 709) 709) \<le> 1 + exp (np_clip b (- 709) 709)"
    by simp
  moreover have "0 < 1 + exp (np_clip a (- 709) 709)"
    by (simp add: add_pos_pos)
  ultimately have "1 / (1 + exp (np_clip b (- 709) 709)) \<le> 1 / (1 + exp (np_clip a (- 709) 709))"
    by (simp add: frac_le)
  then show ?thesis
    by (simp add: default_score_normalizer_def Let_def)
qed

lemma normalizer_bounds:
  "0 < default_score_normalizer x \<and> default_score_normalizer x < 1"
proof -
  have pos: "0 < exp (np_clip x (- 709) 709)" by simp
  have den: "0 < 1 + exp (np_clip x (- 709) 709)" by (simp add: add_pos_pos)
  have "1 / (1 + exp (np_clip x (- 709) 709)) < 1"
    using pos by (simp add: divide_less_eq_1_pos [OF den])
  moreover have "0 < 1 / (1 + exp (np_clip x (- 709) 709))"
    using pos by (simp add: add_pos_pos)
  ultimately show ?thesis
    by (simp add: default_score_normalizer_def Let_def)
qed

text \<open>
  Claim C8. The default score normalizer computes \<open>1 - 1 / (1 + e\<^sup>x)\<close> with \<open>x\<close>
  clamped to \<open>[-709, 709]\<close>; it is monotonically non-decreasing (\<open>a \<le> b\<close> gives
  \<open>Normalize a \<le> Normalize b\<close>), every output lies in \<open>[0, 1]\<close>, and
  \<open>Normalize 0 = 1/2\<close>. Stated over the real numbers.
\<close>

theorem default_score_normalizer_logistic:
  "default_score_normalizer x = 1 - 1 / (1 + exp (np_clip x (- 709) 709))
   \<and> np_clip x (- 709) 709 = (if x < - 709 then - 709 else if 709 < x then 709 else x)
   \<and> (a \<le> b \<longrightarrow> default_score_normalizer a \<le> default_score_normalizer b)
   \<and> 0 \<le> default_score_normalizer x \<and> default_score_normalizer x \<le> 1
   \<and> default_score_normalizer 0 = 1 / 2"
proof -
  have "default_score_normalizer 0 = 1 / 2"
    by (simp add: default_score_normalizer_def np_clip_def)
  moreover have "default_score_normalizer x = 1 - 1 / (1 + exp (np_clip x (- 709) 709))"
    by (simp add: default_score_normalizer_def)
  ultimately show ?thesis
    using normalizer_bounds [of x] normalizer_mono [of a b] np_clip_cases [of x]
    by (simp add: less_imp_le)
qed

text \<open>
  The theorem at \<open>x = 1000\<close>, \<open>a = 0\<close>, \<open>b = 1\<close>: the input is clamped to \<open>709\<close>, and
  the normalizer does not decrease from \<open>0\<close> to \<open>1\<close>.
\<close>

theorem default_score_normalizer_logistic_witness:
  "default_score_normalizer 0 \<le> default_score_normalizer 1
   \<and> default_score_normalizer 1000 = 1 - 1 / (1 + exp 709)
   \<and> default_score_normalizer 1000 \<le> 1"
  using default_score_normalizer_logistic [of 1000 0 1] by simp

section \<open>The embedding guard of the search dispatcher\<close>

text \<open>
  The first statement of \<^verbatim>\<open>_perform_search\<close>: without an embedding provider every
  search method but \<^verbatim>\<open>near_text\<close> is refused, and nothing is sent to the engine.
\<close>

lemma perform_search_no_embedding:
  "embedding st = None \<Longrightarrow> search_method \<noteq> ''near_text'' \<Longrightarrow>
     perform_search eng str_of st query k keyword_query return_score search_method tenant
       return_properties return_uuids others
     = (Inl (ValueError
          ''_embedding cannot be None for similarity_search if search_method is not near_text''),
        [])"
  by (simp add: perform_search_def)

text \<open>
  Claim C1, as amended. For every search dispatched in hybrid mode when no embedding
  provider is configured, the search fails with the \<^verbatim>\<open>ValueError\<close> of the embedding
  guard, and no engine query is issued: the text-only hybrid query of the source is
  never sent.
\<close>

theorem hybrid_without_provider_rejected:
  "embedding st = None \<Longrightarrow>
     perform_search eng str_of st query k keyword_query return_score ''hybrid'' tenant
       return_properties return_uuids others
     = (Inl (ValueError
          ''_embedding cannot be None for similarity_search if search_method is not near_text''),
        [])"
  by (rule perform_search_no_embedding) simp_all

text \<open>The theorem on the store without a provider, asked for \<^verbatim>\<open>hello\<close>.\<close>

theorem hybrid_without_provider_rejected_witness:
  "embedding demo_store = None
   \<and> fst (perform_search demo_engine demo_str demo_store (Some ''hello'') 4 None False ''hybrid''
       None None False [])
     = Inl (ValueError
        ''_embedding cannot be None for similarity_search if search_method is not near_text'')
   \<and> snd (perform_search demo_engine demo_str demo_store (Some ''hello'') 4 None False ''hybrid''
       None None False []) = []"
proof -
  have h: "embedding demo_store = None" by (simp add: demo_store_def)
  show ?thesis using h hybrid_without_provider_rejected [OF h] by simp
qed

text \<open>
  Claim C1 as the specification states it (the hybrid search succeeds with a text-only
  query) fails on that input: the call raises and the engine, which would have answered
  with one object, is never asked.
\<close>

theorem hybrid_without_provider_counterexample:
  "perform_search demo_engine demo_str demo_store (Some ''hello'') 4 None False ''hybrid''
     None None False []
   = (Inl (ValueError
        ''_embedding cannot be None for similarity_search if search_method is not near_text''),
      [])"
  by (simp add: perform_search_def demo_store_def)

text \<open>
  Claim C10. For every call to \<^verbatim>\<open>similarity_search_by_vector\<close> with an explicitly
  supplied query vector, if no embedding provider is configured the call raises an error
  before issuing any engine query: the \<^verbatim>\<open>ValueError\<close> of the embedding guard, unless
  the keyword arguments already clash with those the method passes itself.
\<close>

theorem by_vector_needs_provider:
  assumes "embedding st = None"
  shows "snd (similarity_search_by_vector eng str_of st query_vector k kw) = []
    \<and> (\<exists>e. fst (similarity_search_by_vector eng str_of st query_vector k kw) = Inl e)
    \<and> (kw_search_method kw = None \<and> ''near_vector'' \<notin> set (map fst (kw_others kw)) \<longrightarrow>
         fst (similarity_search_by_vector eng str_of st query_vector k kw)
         = Inl (ValueError
            ''_embedding cannot be None for similarity_search if search_method is not near_text''))"
  using assms
  by (simp add: similarity_search_by_vector_def perform_search_no_embedding)

text \<open>
  The theorem on the store without a provider, with the query vector \<open>[1, 0]\<close> and
  no further keyword arguments.
\<close>

theorem by_vector_needs_provider_witness:
  "embedding demo_store = None
   \<and> similarity_search_by_vector demo_engine demo_str demo_store [1, 0] 4 demo_kwargs
     = (Inl (ValueError
          ''_embedding cannot be None for similarity_search if search_method is not near_text''),
        [])"
proof -
  have h: "embedding demo_store = None" by (simp add: demo_store_def)
  have k: "kw_search_method demo_kwargs = None \<and> ''near_vector'' \<notin> set (map fst (kw_others demo_kwargs))"
    by (simp add: demo_kwargs_def)
  show ?thesis
    using h k by_vector_needs_provider [OF h, of demo_engine demo_str "[1, 0]" 4 demo_kwargs]
    by (simp add: prod_eq_iff)
qed

section \<open>Tenant scope and the result loop\<close>

lemma tenant_context_mismatch:
  "(tenant \<noteq> None \<and> \<not> multi_tenancy_enabled st) \<or> (tenant = None \<and> multi_tenancy_enabled st) \<Longrightarrow>
     tenant_context st tenant =
       Inl (ValueError (if tenant \<noteq> None
          then ''Cannot use tenant context when multi-tenancy is not enabled''
          else ''Must use tenant context when multi-tenancy is enabled''))"
  by (auto simp: tenant_context_def)

lemma tenant_context_match:
  "(tenant \<noteq> None) = multi_tenancy_enabled st \<Longrightarrow> tenant_context st tenant = Inr tenant"
  by (auto simp: tenant_context_def)

lemma tenant_context_error:
  "tenant_context st tenant = Inl e \<Longrightarrow> \<exists>m. e = ValueError m"
  by (auto simp: tenant_context_def split: if_splits)

lemma dispatch_query_error:
  "dispatch_query st query k keyword_query search_method props others = Inl e \<Longrightarrow>
     \<exists>m. e = ValueError m"
  by (auto simp: dispatch_query_def Let_def split: if_splits option.splits)

text \<open>
  The loop over the objects returns a list exactly when every object is normalised, and
  then the two lists correspond position by position.
\<close>

lemma collect_docs_Inr_iff:
  "collect_docs f objs = Inr hits \<longleftrightarrow>
     length hits = length objs \<and> (\<forall>i<length objs. f (objs ! i) = Inr (hits ! i))"
proof (induction objs arbitrary: hits)
  case Nil
  then show ?case by auto
next
  case (Cons obj objs)
  show ?case
  proof (cases hits)
    case Nil
    then show ?thesis by (auto split: sum.splits)
  next
    case (Cons h hs)
    then show ?thesis
      using Cons.IH [of hs] by (auto simp: All_less_Suc2 split: sum.splits)
  qed
qed

lemma collect_docs_total:
  assumes "\<And>obj. obj \<in> set objs \<Longrightarrow> \<exists>h. f obj = Inr h"
  shows "\<exists>hits. collect_docs f objs = Inr hits"
  using assms
proof (induction objs)
  case Nil
  then show ?case by simp
next
  case (Cons obj objs)
  obtain h where "f obj = Inr h" using Cons.prems by auto
  moreover obtain hs where "collect_docs f objs = Inr hs" using Cons by auto
  ultimately show ?case by simp
qed

lemma collect_docs_error:
  "collect_docs f objs = Inl e \<Longrightarrow> \<exists>obj\<in>set objs. f obj = Inl e"
  by (induction objs) (auto split: sum.splits)

lemma normalize_object_total:
  assumes "obj_properties obj tk \<noteq> None"
    and "obj_vector obj = [] \<or> map_of (obj_vector obj) ''default'' \<noteq> None"
    and "return_score \<longrightarrow>
           obj_metadata obj ''score'' \<noteq> None \<and> obj_metadata obj ''explain_score'' \<noteq> None"
  shows "\<exists>h. normalize_object str_of tk return_score return_uuids obj = Inr h"
  using assms
  by (auto simp: normalize_object_def vector_entry_def score_text_def Let_def)

lemma normalize_object_error:
  "normalize_object str_of tk return_score return_uuids obj = Inl e \<Longrightarrow>
     (\<exists>m. e = KeyError m) \<or> (\<exists>m. e = AttributeError m)"
  by (auto simp: normalize_object_def vector_entry_def score_text_def Let_def
      split: option.splits sum.splits if_splits)

lemma perform_search_Inr:
  assumes "perform_search eng str_of st query k keyword_query return_score search_method tenant
             return_properties return_uuids others = (Inr hits, calls)"
  shows "\<exists>q objs. calls = [(tenant, q)] \<and> eng tenant q = Objects objs
           \<and> dispatch_query st query k keyword_query search_method
                (with_text_key (text_key st) return_properties) others = Inr q
           \<and> collect_docs (normalize_object str_of (text_key st) return_score return_uuids) objs
               = Inr hits"
  using assms
  by (auto simp: perform_search_def Let_def tenant_context_def
      split: if_splits sum.splits engine_response.splits)

text \<open>
  Claim C4. For the operations that acquire the tenant scope, search and delete:
  supplying a tenant name while multi-tenancy is disabled fails with the configuration
  error (\<^verbatim>\<open>ValueError\<close> in the source), and so does omitting the tenant name while
  multi-tenancy is enabled; in both cases no engine call has been issued.
\<close>

theorem tenant_mismatch_rejected:
  assumes "(tenant \<noteq> None \<and> \<not> multi_tenancy_enabled st)
           \<or> (tenant = None \<and> multi_tenancy_enabled st)"
  shows "tenant_context st tenant =
           Inl (ValueError (if tenant \<noteq> None
              then ''Cannot use tenant context when multi-tenancy is not enabled''
              else ''Must use tenant context when multi-tenancy is enabled''))
    \<and> (\<exists>m. fst (perform_search eng str_of st query k keyword_query return_score search_method
                  tenant return_properties return_uuids others) = Inl (ValueError m))
    \<and> snd (perform_search eng str_of st query k keyword_query return_score search_method
                  tenant return_properties return_uuids others) = []
    \<and> (\<exists>m. fst (delete delete_many st ids tenant) = Inl (ValueError m))
    \<and> snd (delete delete_many st ids tenant) = []"
proof -
  note tc = tenant_context_mismatch [OF assms]
  have "\<exists>m. fst (perform_search eng str_of st query k keyword_query return_score search_method
                  tenant return_properties return_uuids others) = Inl (ValueError m)"
    by (simp add: perform_search_def tc Let_def)
  moreover have "snd (perform_search eng str_of st query k keyword_query return_score search_method
                  tenant return_properties return_uuids others) = []"
    by (simp add: perform_search_def tc Let_def)
  moreover have "\<exists>m. fst (delete delete_many st ids tenant) = Inl (ValueError m)"
    by (simp add: delete_def tc split: option.splits)
  moreover have "snd (delete delete_many st ids tenant) = []"
    by (simp add: delete_def tc split: option.splits)
  ultimately show ?thesis using tc by simp
qed

text \<open>
  The theorem on a store with multi-tenancy disabled and the tenant \<^verbatim>\<open>acme\<close>, and on a
  store with multi-tenancy enabled and no tenant.
\<close>

theorem tenant_mismatch_rejected_witness:
  "\<not> multi_tenancy_enabled demo_store_embedded
   \<and> perform_search demo_engine demo_str demo_store_embedded (Some ''hello'') 4 None False
        ''hybrid'' (Some ''acme'') None False []
      = (Inl (ValueError ''Cannot use tenant context when multi-tenancy is not enabled''), [])
   \<and> delete demo_delete_many demo_store_embedded (Some [''id-1'']) (Some ''acme'')
      = (Inl (ValueError ''Cannot use tenant context when multi-tenancy is not enabled''), [])
   \<and> multi_tenancy_enabled demo_store_tenants
   \<and> perform_search demo_engine demo_str demo_store_tenants (Some ''hello'') 4 None False
        ''hybrid'' None None False []
      = (Inl (ValueError ''Must use tenant context when multi-tenancy is enabled''), [])
   \<and> delete demo_delete_many demo_store_tenants (Some [''id-1'']) None
      = (Inl (ValueError ''Must use tenant context when multi-tenancy is enabled''), [])"
proof -
  have a: "(Some ''acme'' \<noteq> None \<and> \<not> multi_tenancy_enabled demo_store_embedded)
           \<or> (Some ''acme'' = None \<and> multi_tenancy_enabled demo_store_embedded)"
    by (simp add: demo_store_embedded_def demo_store_def)
  have b: "((None :: string option) \<noteq> None \<and> \<not> multi_tenancy_enabled demo_store_tenants)
           \<or> ((None :: string option) = None \<and> multi_tenancy_enabled demo_store_tenants)"
    by (simp add: demo_store_tenants_def)
  have e: "embedding demo_store_embedded \<noteq> None" "embedding demo_store_tenants \<noteq> None"
    by (simp_all add: demo_store_tenants_def demo_store_embedded_def)
  show ?thesis
    using a b e
      tenant_mismatch_rejected [OF a, of demo_engine demo_str "Some ''hello''" 4 None False
        "''hybrid''" None False "[]" demo_delete_many "Some [''id-1'']"]
      tenant_mismatch_rejected [OF b, of demo_engine demo_str "Some ''hello''" 4 None False
        "''hybrid''" None False "[]" demo_delete_many "Some [''id-1'']"]
    by (auto simp: perform_search_def delete_def Let_def Option.is_none_def prod_eq_iff)
qed

section \<open>Search modes without a provider, and query failures\<close>

text \<open>
  Claim C3. With no embedding provider configured, a search in \<^verbatim>\<open>near_text\<close> mode
  succeeds: when the tenant fits the store and the engine answers the near-text query
  with objects that carry the text key, the search returns one hit per object and has
  issued exactly that query. A search in \<^verbatim>\<open>near_vector\<close> mode with no embedding provider
  fails with the configuration error (\<^verbatim>\<open>ValueError\<close>), whatever keyword arguments it
  is given, so also when none of them is a query vector.
\<close>

theorem text_mode_needs_no_provider:
  assumes "embedding st = None"
  shows "((tenant \<noteq> None) = multi_tenancy_enabled st
          \<and> eng tenant (Near_text query k (with_text_key (text_key st) return_properties) others)
              = Objects objs
          \<and> (\<forall>obj\<in>set objs.
                obj_properties obj (text_key st) \<noteq> None
                \<and> (obj_vector obj = [] \<or> map_of (obj_vector obj) ''default'' \<noteq> None)
                \<and> (return_score \<longrightarrow> obj_metadata obj ''score'' \<noteq> None
                                    \<and> obj_metadata obj ''explain_score'' \<noteq> None))
          \<longrightarrow> (\<exists>hits.
                 perform_search eng str_of st query k keyword_query return_score ''near_text''
                   tenant return_properties return_uuids others
                 = (Inr hits,
                    [(tenant, Near_text query k (with_text_key (text_key st) return_properties)
                                others)])
                 \<and> length hits = length objs))
    \<and> perform_search eng str_of st query k keyword_query return_score ''near_vector''
          tenant return_properties return_uuids others
        = (Inl (ValueError
             ''_embedding cannot be None for similarity_search if search_method is not near_text''),
           [])"
proof -
  have vec: "perform_search eng str_of st query k keyword_query return_score ''near_vector''
          tenant return_properties return_uuids others
        = (Inl (ValueError
             ''_embedding cannot be None for similarity_search if search_method is not near_text''),
           [])"
    using assms by (simp add: perform_search_no_embedding)
  have near_text_ok: "\<exists>hits.
                 perform_search eng str_of st query k keyword_query return_score ''near_text''
                   tenant return_properties return_uuids others
                 = (Inr hits,
                    [(tenant, Near_text query k (with_text_key (text_key st) return_properties)
                                others)])
                 \<and> length hits = length objs"
    if t: "(tenant \<noteq> None) = multi_tenancy_enabled st"
      and e: "eng tenant (Near_text query k (with_text_key (text_key st) return_properties) others)
              = Objects objs"
      and w: "\<forall>obj\<in>set objs.
                obj_properties obj (text_key st) \<noteq> None
                \<and> (obj_vector obj = [] \<or> map_of (obj_vector obj) ''default'' \<noteq> None)
                \<and> (return_score \<longrightarrow> obj_metadata obj ''score'' \<noteq> None
                                    \<and> obj_metadata obj ''explain_score'' \<noteq> None)"
  proof -
    have "\<exists>hits. collect_docs (normalize_object str_of (text_key st) return_score return_uuids) objs
            = Inr hits"
      using w by (intro collect_docs_total normalize_object_total) auto
    then obtain hits where
      h: "collect_docs (normalize_object str_of (text_key st) return_score return_uuids) objs
            = Inr hits" ..
    then have "length hits = length objs" by (simp add: collect_docs_Inr_iff)
    moreover have "perform_search eng str_of st query k keyword_query return_score ''near_text''
                   tenant return_properties return_uuids others
                 = (Inr hits,
                    [(tenant, Near_text query k (with_text_key (text_key st) return_properties)
                                others)])"
      by (simp add: perform_search_def Let_def tenant_context_match [OF t] dispatch_query_def e h)
    ultimately show ?thesis by blast
  qed
  show ?thesis using vec near_text_ok by blast
qed

text \<open>
  The theorem on the store without a provider and the engine that answers with one
  object.
\<close>

theorem text_mode_needs_no_provider_witness:
  "embedding demo_store = None
   \<and> (\<exists>hits. perform_search demo_engine demo_str demo_store (Some ''hello'') 4 None False
          ''near_text'' None None False []
        = (Inr hits, [(None, Near_text (Some ''hello'') 4 None [])]) \<and> length hits = 1)
   \<and> perform_search demo_engine demo_str demo_store (Some ''hello'') 4 None False
          ''near_vector'' None None False []
      = (Inl (ValueError
           ''_embedding cannot be None for similarity_search if search_method is not near_text''),
         [])"
proof -
  have h: "embedding demo_store = None" by (simp add: demo_store_def)
  have p: "(None \<noteq> (None :: string option)) = multi_tenancy_enabled demo_store
     \<and> demo_engine None (Near_text (Some ''hello'') 4
          (with_text_key (text_key demo_store) None) []) = Objects [demo_object]
     \<and> (\<forall>obj\<in>set [demo_object].
           obj_properties obj (text_key demo_store) \<noteq> None
           \<and> (obj_vector obj = [] \<or> map_of (obj_vector obj) ''default'' \<noteq> None)
           \<and> (False \<longrightarrow> obj_metadata obj ''score'' \<noteq> None
                        \<and> obj_metadata obj ''explain_score'' \<noteq> None))"
    by (simp add: demo_store_def demo_engine_def demo_object_def)
  show ?thesis
    using h p text_mode_needs_no_provider [OF h, where tenant = None and eng = demo_engine
        and query = "Some ''hello''" and k = 4 and return_properties = None and others = "[]"
        and objs = "[demo_object]" and return_score = False and str_of = demo_str
        and keyword_query = None and return_uuids = False]
    by (simp add: with_text_key_def)
qed

text \<open>
  Claim C5. For every search, a \<^verbatim>\<open>WeaviateQueryException\<close> raised by the query call is
  caught and raised again as one \<^verbatim>\<open>ValueError\<close> whose message is
  \<^verbatim>\<open>Error during query: \<close> followed by the underlying message; a search never ends
  with the engine's own \<^verbatim>\<open>WeaviateQueryException\<close>.
\<close>

theorem query_failure_rewrapped:
  "((search_method = ''near_text'' \<or> embedding st \<noteq> None)
     \<and> (tenant \<noteq> None) = multi_tenancy_enabled st
     \<and> dispatch_query st query k keyword_query search_method
          (with_text_key (text_key st) return_properties) others = Inr q
     \<and> eng tenant q = Raises_WeaviateQueryException msg
    \<longrightarrow> perform_search eng str_of st query k keyword_query return_score search_method tenant
          return_properties return_uuids others
        = (Inl (ValueError (''Error during query: '' @ msg)), [(tenant, q)]))
   \<and> fst (perform_search eng str_of st query k keyword_query return_score search_method tenant
          return_properties return_uuids others) \<noteq> Inl (WeaviateQueryException m)"
proof -
  have a: "perform_search eng str_of st query k keyword_query return_score search_method tenant
          return_properties return_uuids others
        = (Inl (ValueError (''Error during query: '' @ msg)), [(tenant, q)])"
    if g: "search_method = ''near_text'' \<or> embedding st \<noteq> None"
      and t: "(tenant \<noteq> None) = multi_tenancy_enabled st"
      and d: "dispatch_query st query k keyword_query search_method
          (with_text_key (text_key st) return_properties) others = Inr q"
      and e: "eng tenant q = Raises_WeaviateQueryException msg"
  proof -
    have "\<not> (search_method \<noteq> ''near_text'' \<and> Option.is_none (embedding st))"
      using g by (auto simp: Option.is_none_def)
    then show ?thesis
      by (simp add: perform_search_def Let_def tenant_context_match [OF t] d e)
  qed
  have b: "fst (perform_search eng str_of st query k keyword_query return_score search_method
          tenant return_properties return_uuids others) \<noteq> Inl (WeaviateQueryException m)"
  proof
    assume r: "fst (perform_search eng str_of st query k keyword_query return_score search_method
          tenant return_properties return_uuids others) = Inl (WeaviateQueryException m)"
    then show False
      by (auto simp: perform_search_def Let_def
          split: if_splits sum.splits engine_response.splits
          dest!: tenant_context_error dispatch_query_error collect_docs_error
                 normalize_object_error)
  qed
  show ?thesis using a b by blast
qed

text \<open>
  The theorem on the engine whose query call raises, in \<^verbatim>\<open>near_vector\<close> mode with a
  provider and in \<^verbatim>\<open>near_text\<close> mode without one.
\<close>

theorem query_failure_rewrapped_witness:
  "perform_search failing_engine demo_str demo_store_embedded (Some ''hello'') 4 None False
        ''near_vector'' None None False []
      = (Inl (ValueError ''Error during query: deadline exceeded''),
         [(None, Near_vector 4 None [])])
   \<and> perform_search failing_engine demo_str demo_store (Some ''hello'') 4 None False
        ''near_text'' None None False []
      = (Inl (ValueError ''Error during query: deadline exceeded''),
         [(None, Near_text (Some ''hello'') 4 None [])])"
proof -
  have a: "(''near_vector'' = ''near_text'' \<or> embedding demo_store_embedded \<noteq> None)
     \<and> ((None :: string option) \<noteq> None) = multi_tenancy_enabled demo_store_embedded
     \<and> dispatch_query demo_store_embedded (Some ''hello'') 4 None ''near_vector''
          (with_text_key (text_key demo_store_embedded) None) [] = Inr (Near_vector 4 None [])
     \<and> failing_engine None (Near_vector 4 None [])
         = Raises_WeaviateQueryException ''deadline exceeded''"
    by (simp add: demo_store_embedded_def demo_store_def dispatch_query_def with_text_key_def
        failing_engine_def)
  have b: "(''near_text'' = ''near_text'' \<or> embedding demo_store \<noteq> None)
     \<and> ((None :: string option) \<noteq> None) = multi_tenancy_enabled demo_store
     \<and> dispatch_query demo_store (Some ''hello'') 4 None ''near_text''
          (with_text_key (text_key demo_store) None) [] = Inr (Near_text (Some ''hello'') 4 None [])
     \<and> failing_engine None (Near_text (Some ''hello'') 4 None [])
         = Raises_WeaviateQueryException ''deadline exceeded''"
    by (simp add: demo_store_def dispatch_query_def with_text_key_def failing_engine_def)
  show ?thesis
    using a b
      query_failure_rewrapped [where search_method = "''near_vector''"
        and st = demo_store_embedded and tenant = None and query = "Some ''hello''" and k = 4
        and keyword_query = None and return_properties = None and others = "[]"
        and q = "Near_vector 4 None []" and eng = failing_engine
        and msg = "''deadline exceeded''" and str_of = demo_str and return_score = False
        and return_uuids = False]
      query_failure_rewrapped [where search_method = "''near_text''"
        and st = demo_store and tenant = None and query = "Some ''hello''" and k = 4
        and keyword_query = None and return_properties = None and others = "[]"
        and q = "Near_text (Some ''hello'') 4 None []" and eng = failing_engine
        and msg = "''deadline exceeded''" and str_of = demo_str and return_score = False
        and return_uuids = False]
    by simp
qed

section \<open>Scores\<close>

lemma colon_not_float_char: "\<not> float_char (CHR '':'')"
  by (simp add: float_char_def)

lemma colon_not_float_candidate: "\<not> float_candidate (a @ '': '' @ b)"
  by (simp add: float_candidate_def colon_not_float_char)

lemma normalize_object_scored:
  assumes "normalize_object str_of tk True return_uuids obj = Inr h"
  shows "\<exists>d s e. h = Scored d (str_of s @ '': '' @ str_of e)
           \<and> obj_metadata obj ''score'' = Some s \<and> obj_metadata obj ''explain_score'' = Some e"
  using assms
  by (auto simp: normalize_object_def score_text_def Let_def split: option.splits sum.splits)

text \<open>
  Claim C7. When a search is performed with scoring requested (\<^verbatim>\<open>_perform_search\<close>
  with \<^verbatim>\<open>return_score=True\<close>, which is what \<^verbatim>\<open>similarity_search_with_score\<close> calls),
  each returned result carries one score value: the text of the object's score, then
  \<^verbatim>\<open>: \<close>, then the text of its explanation. This value cannot be parsed as a float.
\<close>

theorem score_is_concatenated_text:
  "(perform_search eng str_of st query k keyword_query True search_method tenant
      return_properties return_uuids others = (Inr hits, calls)
    \<or> similarity_search_with_score eng str_of st text k kw = (Inr hits, calls))
   \<longrightarrow> (\<exists>t q objs. calls = [(t, q)] \<and> eng t q = Objects objs \<and> length hits = length objs
          \<and> (\<forall>i<length hits. \<exists>d s e.
                hits ! i = Scored d (str_of s @ '': '' @ str_of e)
                \<and> obj_metadata (objs ! i) ''score'' = Some s
                \<and> obj_metadata (objs ! i) ''explain_score'' = Some e
                \<and> \<not> float_candidate (str_of s @ '': '' @ str_of e)))"
proof
  assume "perform_search eng str_of st query k keyword_query True search_method tenant
      return_properties return_uuids others = (Inr hits, calls)
    \<or> similarity_search_with_score eng str_of st text k kw = (Inr hits, calls)"
  then have "\<exists>q' m t kq rp ru os.
      perform_search eng str_of st q' k kq True m t rp ru os = (Inr hits, calls)"
  proof
    assume "perform_search eng str_of st query k keyword_query True search_method tenant
      return_properties return_uuids others = (Inr hits, calls)"
    then show ?thesis by blast
  next
    assume "similarity_search_with_score eng str_of st text k kw = (Inr hits, calls)"
    then have "perform_search eng str_of st (Some text) k (kw_keyword_query kw) True
        (case kw_search_method kw of Some m \<Rightarrow> m | None \<Rightarrow> ''hybrid'') (kw_tenant kw)
        (kw_return_properties kw) (kw_return_uuids kw) (kw_others kw) = (Inr hits, calls)"
      by (simp add: similarity_search_with_score_def split: if_splits)
    then show ?thesis by blast
  qed
  then obtain q' m t kq rp ru os where
    "perform_search eng str_of st q' k kq True m t rp ru os = (Inr hits, calls)"
    by blast
  from perform_search_Inr [OF this] obtain q objs where
    c: "calls = [(t, q)]" and e: "eng t q = Objects objs"
    and h: "collect_docs (normalize_object str_of (text_key st) True ru) objs = Inr hits"
    by blast
  from h have len: "length hits = length objs"
    and each: "\<forall>i<length objs. normalize_object str_of (text_key st) True ru (objs ! i)
                 = Inr (hits ! i)"
    by (simp_all add: collect_docs_Inr_iff)
  have "\<exists>d s e. hits ! i = Scored d (str_of s @ '': '' @ str_of e)
                \<and> obj_metadata (objs ! i) ''score'' = Some s
                \<and> obj_metadata (objs ! i) ''explain_score'' = Some e
                \<and> \<not> float_candidate (str_of s @ '': '' @ str_of e)" if "i < length hits" for i
    using that len each normalize_object_scored [of str_of "text_key st" ru "objs ! i" "hits ! i"]
      colon_not_float_candidate
    by auto
  with c e len show "\<exists>t q objs. calls = [(t, q)] \<and> eng t q = Objects objs \<and> length hits = length objs
          \<and> (\<forall>i<length hits. \<exists>d s e.
                hits ! i = Scored d (str_of s @ '': '' @ str_of e)
                \<and> obj_metadata (objs ! i) ''score'' = Some s
                \<and> obj_metadata (objs ! i) ''explain_score'' = Some e
                \<and> \<not> float_candidate (str_of s @ '': '' @ str_of e))"
    by blast
qed

lemma demo_with_score_runs:
  "\<exists>hits calls. similarity_search_with_score demo_engine demo_str demo_store_embedded ''hello'' 4
       demo_kwargs = (Inr hits, calls)"
  by (simp add: similarity_search_with_score_def perform_search_def demo_kwargs_def
      demo_store_embedded_def demo_store_def tenant_context_def dispatch_query_def Let_def
      demo_engine_def normalize_object_def demo_object_def vector_entry_def score_text_def
      with_text_key_def Option.is_none_def)

text \<open>
  The theorem on the store with a provider and the engine that answers with one object
  of score \<open>0.5\<close> and explanation \<^verbatim>\<open>keyword match\<close>.
\<close>

theorem score_is_concatenated_text_witness:
  "\<exists>d. fst (similarity_search_with_score demo_engine demo_str demo_store_embedded ''hello'' 4
       demo_kwargs) = Inr [Scored d ''0.5: keyword match'']"
proof -
  obtain hits calls where
    r: "similarity_search_with_score demo_engine demo_str demo_store_embedded ''hello'' 4
       demo_kwargs = (Inr hits, calls)"
    using demo_with_score_runs by blast
  then have "\<exists>t q objs. calls = [(t, q)] \<and> demo_engine t q = Objects objs
          \<and> length hits = length objs
          \<and> (\<forall>i<length hits. \<exists>d s e.
                hits ! i = Scored d (demo_str s @ '': '' @ demo_str e)
                \<and> obj_metadata (objs ! i) ''score'' = Some s
                \<and> obj_metadata (objs ! i) ''explain_score'' = Some e
                \<and> \<not> float_candidate (demo_str s @ '': '' @ demo_str e))"
    using score_is_concatenated_text [of demo_engine demo_str demo_store_embedded _ 4 _ _ _ _ _ _
        hits calls "''hello''" demo_kwargs]
    by blast
  then obtain d s e where "length hits = 1"
    and "hits ! 0 = Scored d (demo_str s @ '': '' @ demo_str e)"
    and "obj_metadata demo_object ''score'' = Some s"
    and "obj_metadata demo_object ''explain_score'' = Some e"
    by (auto simp: demo_engine_def)
  then have "hits = [Scored d ''0.5: keyword match'']"
    by (cases hits) (auto simp: demo_object_def)
  with r show ?thesis by auto
qed

section \<open>Result normalization\<close>

lemma filtered_metadata_Some:
  "md key = Some v \<Longrightarrow> v \<noteq> PNone \<Longrightarrow> filtered_metadata md key = Some v"
  by (cases v) (simp_all add: filtered_metadata_def)

lemma vector_entry_total:
  assumes "obj_vector obj = [] \<or> map_of (obj_vector obj) ''default'' \<noteq> None"
  shows "\<exists>vec. vector_entry obj = Inr vec \<and> (\<forall>key. key \<noteq> ''vector'' \<longrightarrow> vec key = None)
           \<and> (obj_vector obj = [] \<longrightarrow> vec = Map.empty)"
proof (cases "obj_vector obj = []")
  case True
  then show ?thesis by (simp add: vector_entry_def)
next
  case False
  with assms obtain v where "map_of (obj_vector obj) ''default'' = Some v" by auto
  with False show ?thesis by (simp add: vector_entry_def)
qed

text \<open>
  Claim C6. For every engine-returned object of a search result (it carries the text
  key, and its vectors and score attributes are such that the loop body does not raise):
  the text-key property becomes \<^verbatim>\<open>Document.page_content\<close> and is not copied into the
  metadata, which has no entry under the text key unless the engine itself supplies a
  non-null metadata field, or an attached \<^verbatim>\<open>vector\<close> or \<^verbatim>\<open>uuid\<close>, of that name; every
  other property and every non-null metadata field of the engine is merged into the
  metadata (a later source wins on a shared name). So the object stored for the text
  \<^verbatim>\<open>hello\<close> with metadata \<^verbatim>\<open>{"source": "x"}\<close> is retrieved with content \<^verbatim>\<open>hello\<close>,
  metadata \<^verbatim>\<open>source\<close> \<open>\<mapsto>\<close> \<^verbatim>\<open>x\<close>, and no entry under the text key.
\<close>

theorem text_key_moved_to_content:
  assumes "obj_properties obj tk = Some text"
    and "obj_vector obj = [] \<or> map_of (obj_vector obj) ''default'' \<noteq> None"
    and "return_score \<longrightarrow>
           obj_metadata obj ''score'' \<noteq> None \<and> obj_metadata obj ''explain_score'' \<noteq> None"
  shows "\<exists>h. normalize_object str_of tk return_score return_uuids obj = Inr h
    \<and> page_content (hit_document h) = text
    \<and> (filtered_metadata (obj_metadata obj) tk = None
         \<and> (obj_vector obj \<noteq> [] \<longrightarrow> tk \<noteq> ''vector'') \<and> (return_uuids \<longrightarrow> tk \<noteq> ''uuid'')
        \<longrightarrow> metadata (hit_document h) tk = None)
    \<and> (\<forall>key v. key \<noteq> tk \<and> obj_properties obj key = Some v
          \<and> filtered_metadata (obj_metadata obj) key = None
          \<and> (obj_vector obj \<noteq> [] \<longrightarrow> key \<noteq> ''vector'') \<and> (return_uuids \<longrightarrow> key \<noteq> ''uuid'')
        \<longrightarrow> metadata (hit_document h) key = Some v)
    \<and> (\<forall>key v. obj_metadata obj key = Some v \<and> v \<noteq> PNone
          \<and> (obj_vector obj \<noteq> [] \<longrightarrow> key \<noteq> ''vector'') \<and> (return_uuids \<longrightarrow> key \<noteq> ''uuid'')
        \<longrightarrow> metadata (hit_document h) key = Some v)
    \<and> (data_properties tk ''hello'' (Some [[''source'' \<mapsto> PStr ''x'']]) 0
          = Inr (obj_properties obj)
        \<and> tk \<noteq> ''source''
        \<and> filtered_metadata (obj_metadata obj) tk = None
        \<and> filtered_metadata (obj_metadata obj) ''source'' = None
        \<and> (obj_vector obj \<noteq> [] \<longrightarrow> tk \<noteq> ''vector'') \<and> (return_uuids \<longrightarrow> tk \<noteq> ''uuid'')
        \<longrightarrow> page_content (hit_document h) = PStr ''hello''
            \<and> metadata (hit_document h) ''source'' = Some (PStr ''x'')
            \<and> metadata (hit_document h) tk = None)"
proof -
  obtain vec where vec: "vector_entry obj = Inr vec"
    and vdom: "\<And>key. key \<noteq> ''vector'' \<Longrightarrow> vec key = None"
    and vnone: "obj_vector obj = [] \<Longrightarrow> vec = Map.empty"
    using vector_entry_total [OF assms(2)] by blast
  define merged where
    "merged = (obj_properties obj)(tk := None) ++ filtered_metadata (obj_metadata obj)
                ++ vec ++ uuid_entry return_uuids obj"
  obtain h where h: "normalize_object str_of tk return_score return_uuids obj = Inr h"
    and hd: "hit_document h = \<lparr>page_content = text, metadata = merged\<rparr>"
    using assms(1,3) vec
    by (cases return_score) (auto simp: normalize_object_def score_text_def Let_def merged_def)
  have later: "(vec ++ uuid_entry return_uuids obj) key = None"
    if "obj_vector obj \<noteq> [] \<longrightarrow> key \<noteq> ''vector''" and "return_uuids \<longrightarrow> key \<noteq> ''uuid''" for key
    using that vdom [of key] vnone by (auto simp: uuid_entry_def map_add_def)
  have m: "merged key = (case filtered_metadata (obj_metadata obj) key of
                           Some v \<Rightarrow> Some v | None \<Rightarrow> ((obj_properties obj)(tk := None)) key)"
    if "obj_vector obj \<noteq> [] \<longrightarrow> key \<noteq> ''vector''" and "return_uuids \<longrightarrow> key \<noteq> ''uuid''" for key
    using later [OF that] by (auto simp: merged_def map_add_def split: option.splits)
  have content: "page_content (hit_document h) = text" by (simp add: hd)
  have gone: "metadata (hit_document h) tk = None"
    if "filtered_metadata (obj_metadata obj) tk = None"
      "obj_vector obj \<noteq> [] \<longrightarrow> tk \<noteq> ''vector''" "return_uuids \<longrightarrow> tk \<noteq> ''uuid''"
    using that m [of tk] by (simp add: hd)
  have props: "metadata (hit_document h) key = Some v"
    if "key \<noteq> tk" "obj_properties obj key = Some v"
      "filtered_metadata (obj_metadata obj) key = None"
      "obj_vector obj \<noteq> [] \<longrightarrow> key \<noteq> ''vector''" "return_uuids \<longrightarrow> key \<noteq> ''uuid''" for key v
    using that m [of key] by (simp add: hd)
  have meta: "metadata (hit_document h) key = Some v"
    if "obj_metadata obj key = Some v" "v \<noteq> PNone"
      "obj_vector obj \<noteq> [] \<longrightarrow> key \<noteq> ''vector''" "return_uuids \<longrightarrow> key \<noteq> ''uuid''" for key v
    using that m [of key] filtered_metadata_Some [of "obj_metadata obj" key v] by (simp add: hd)
  have trip: "page_content (hit_document h) = PStr ''hello''
            \<and> metadata (hit_document h) ''source'' = Some (PStr ''x'')
            \<and> metadata (hit_document h) tk = None"
    if dp: "data_properties tk ''hello'' (Some [[''source'' \<mapsto> PStr ''x'']]) 0
          = Inr (obj_properties obj)"
      and ne: "tk \<noteq> ''source''"
      and c: "filtered_metadata (obj_metadata obj) tk = None"
        "filtered_metadata (obj_metadata obj) ''source'' = None"
        "obj_vector obj \<noteq> [] \<longrightarrow> tk \<noteq> ''vector''" "return_uuids \<longrightarrow> tk \<noteq> ''uuid''"
  proof -
    from dp have p: "obj_properties obj
        = [tk \<mapsto> PStr ''hello''] ++ (\<lambda>key. map_option json_serializable ([''source'' \<mapsto> PStr ''x''] key))"
      by (simp add: data_properties_def)
    have t: "obj_properties obj tk = Some (PStr ''hello'')"
      using ne by (simp add: p map_add_def)
    have s: "obj_properties obj ''source'' = Some (PStr ''x'')"
      by (simp add: p map_add_def)
    have "text = PStr ''hello''" using t assms(1) by simp
    moreover have "merged ''source'' = Some (PStr ''x'')"
      using ne s c(2) by (simp add: merged_def map_add_def later uuid_entry_def vdom)
    ultimately show ?thesis using gone [OF c(1,3,4)] by (simp add: hd)
  qed
  have general: "normalize_object str_of tk return_score return_uuids obj = Inr h
    \<and> page_content (hit_document h) = text
    \<and> (filtered_metadata (obj_metadata obj) tk = None
         \<and> (obj_vector obj \<noteq> [] \<longrightarrow> tk \<noteq> ''vector'') \<and> (return_uuids \<longrightarrow> tk \<noteq> ''uuid'')
        \<longrightarrow> metadata (hit_document h) tk = None)"
    using h content gone by blast
  have others: "\<forall>key v. key \<noteq> tk \<and> obj_properties obj key = Some v
          \<and> filtered_metadata (obj_metadata obj) key = None
          \<and> (obj_vector obj \<noteq> [] \<longrightarrow> key \<noteq> ''vector'') \<and> (return_uuids \<longrightarrow> key \<noteq> ''uuid'')
        \<longrightarrow> metadata (hit_document h) key = Some v"
    using props by blast
  have engine_fields: "\<forall>key v. obj_metadata obj key = Some v \<and> v \<noteq> PNone
          \<and> (obj_vector obj \<noteq> [] \<longrightarrow> key \<noteq> ''vector'') \<and> (return_uuids \<longrightarrow> key \<noteq> ''uuid'')
        \<longrightarrow> metadata (hit_document h) key = Some v"
    using meta by blast
  have round_trip: "data_properties tk ''hello'' (Some [[''source'' \<mapsto> PStr ''x'']]) 0
          = Inr (obj_properties obj)
        \<and> tk \<noteq> ''source''
        \<and> filtered_metadata (obj_metadata obj) tk = None
        \<and> filtered_metadata (obj_metadata obj) ''source'' = None
        \<and> (obj_vector obj \<noteq> [] \<longrightarrow> tk \<noteq> ''vector'') \<and> (return_uuids \<longrightarrow> tk \<noteq> ''uuid'')
        \<longrightarrow> page_content (hit_document h) = PStr ''hello''
            \<and> metadata (hit_document h) ''source'' = Some (PStr ''x'')
            \<and> metadata (hit_document h) tk = None"
    using trip by (intro impI) (elim conjE, simp)
  show ?thesis
    by (rule exI [of _ h]) (intro conjI general [THEN conjunct1]
        general [THEN conjunct2, THEN conjunct1] general [THEN conjunct2, THEN conjunct2]
        others engine_fields round_trip)
qed

text \<open>
  The theorem on the object with the properties \<^verbatim>\<open>text\<close> \<open>\<mapsto>\<close> \<^verbatim>\<open>hello\<close> and
  \<^verbatim>\<open>source\<close> \<open>\<mapsto>\<close> \<^verbatim>\<open>x\<close>, a score, and a \<^verbatim>\<open>distance\<close> that is \<^verbatim>\<open>None\<close>.
\<close>

theorem text_key_moved_to_content_witness:
  "\<exists>h. normalize_object demo_str ''text'' False False demo_object = Inr h
     \<and> page_content (hit_document h) = PStr ''hello''
     \<and> metadata (hit_document h) ''source'' = Some (PStr ''x'')
     \<and> metadata (hit_document h) ''score'' = Some (PFloat (1 / 2))
     \<and> metadata (hit_document h) ''distance'' = None
     \<and> metadata (hit_document h) ''text'' = None"
proof -
  have present: "obj_properties demo_object ''text'' = Some (PStr ''hello'')"
    by (simp add: demo_object_def)
  have vec: "obj_vector demo_object = [] \<or> map_of (obj_vector demo_object) ''default'' \<noteq> None"
    by (simp add: demo_object_def)
  have sc: "False \<longrightarrow> obj_metadata demo_object ''score'' \<noteq> None
                     \<and> obj_metadata demo_object ''explain_score'' \<noteq> None"
    by simp
  have stored: "data_properties ''text'' ''hello'' (Some [[''source'' \<mapsto> PStr ''x'']]) 0
          = Inr (obj_properties demo_object)"
    by (auto simp: data_properties_def demo_object_def map_add_def fun_eq_iff)
  have free: "filtered_metadata (obj_metadata demo_object) ''text'' = None"
    "filtered_metadata (obj_metadata demo_object) ''source'' = None"
    "filtered_metadata (obj_metadata demo_object) ''distance'' = None"
    "obj_metadata demo_object ''score'' = Some (PFloat (1 / 2))"
    by (simp_all add: filtered_metadata_def demo_object_def)
  from text_key_moved_to_content [OF present vec sc, of demo_str False]
  obtain h where h: "normalize_object demo_str ''text'' False False demo_object = Inr h"
    and content: "page_content (hit_document h) = PStr ''hello''"
    and trip: "metadata (hit_document h) ''source'' = Some (PStr ''x'')"
      "metadata (hit_document h) ''text'' = None"
    and score: "metadata (hit_document h) ''score'' = Some (PFloat (1 / 2))"
    using stored free by auto
  have "metadata (hit_document h) ''distance'' = None"
    using h by (auto simp: normalize_object_def vector_entry_def uuid_entry_def demo_object_def
        filtered_metadata_def Let_def map_add_def)
  with h content trip score show ?thesis by blast
qed

section \<open>Maximal marginal relevance search\<close>

lemma mmr_collect_no_vector:
  "mmr_collect results sel = Inr docs \<Longrightarrow> d \<in> set docs \<Longrightarrow> metadata d ''vector'' = None"
proof (induction sel arbitrary: results docs)
  case Nil
  then show ?case by simp
next
  case (Cons idx rest)
  then show ?case
    by (auto simp: Let_def without_vector_def
        split: if_splits search_hit.splits option.splits sum.splits)
qed

lemma mmr_collect_distinct:
  assumes "distinct sel"
    and "\<forall>i\<in>set sel. i < length results
           \<and> (\<exists>d v. results ! i = Doc d \<and> metadata d ''vector'' = Some v)"
  shows "mmr_collect results sel
         = Inr (map (\<lambda>i. without_vector (hit_document (results ! i)))
                  sel)"
  using assms
proof (induction sel arbitrary: results)
  case Nil
  then show ?case by simp
next
  case (Cons idx rest)
  from Cons.prems obtain d v where idx: "idx < length results" "results ! idx = Doc d"
    "metadata d ''vector'' = Some v"
    by auto
  define results' where
    "results' = results[idx := Doc (without_vector d)]"
  have same: "results' ! i = results ! i" if "i \<in> set rest" for i
  proof -
    have "i \<noteq> idx" using that Cons.prems(1) by auto
    then show ?thesis by (simp add: results'_def)
  qed
  have "distinct rest" using Cons.prems(1) by simp
  moreover have "\<forall>i\<in>set rest. i < length results'
           \<and> (\<exists>d v. results' ! i = Doc d \<and> metadata d ''vector'' = Some v)"
    using Cons.prems(2) same by (simp add: results'_def)
  ultimately have "mmr_collect results' rest
         = Inr (map (\<lambda>i. without_vector (hit_document (results' ! i)))
                  rest)"
    by (rule Cons.IH)
  also have "map (\<lambda>i. without_vector (hit_document (results' ! i)))
                  rest
      = map (\<lambda>i. without_vector (hit_document (results ! i)))
                  rest"
    using same by simp
  finally show ?case
    using idx by (simp add: results'_def Let_def without_vector_def)
qed

lemma result_vectors_total:
  assumes "length vs = length hits"
    and "\<forall>i<length hits. \<exists>d. hits ! i = Doc d \<and> metadata d ''vector'' = Some (vs ! i)"
  shows "result_vectors hits = Inr vs"
  using assms
proof (induction hits arbitrary: vs)
  case Nil
  then show ?case by simp
next
  case (Cons h hits)
  then obtain w ws where vs: "vs = w # ws" by (cases vs) auto
  from Cons.prems(2) obtain d where d: "h = Doc d" "metadata d ''vector'' = Some w"
    using vs by fastforce
  have "\<forall>i<length hits. \<exists>d. hits ! i = Doc d \<and> metadata d ''vector'' = Some (ws ! i)"
    using Cons.prems(2) vs by fastforce
  then have "result_vectors hits = Inr ws"
    using Cons.prems(1) vs by (intro Cons.IH) simp_all
  then show ?case using d vs by simp
qed

lemma normalize_object_vector:
  assumes "normalize_object str_of tk False return_uuids obj = Inr h"
    and "obj_vector obj \<noteq> []"
    and "map_of (obj_vector obj) ''default'' = Some x"
  shows "\<exists>d. h = Doc d \<and> metadata d ''vector'' = Some (PVec x)"
  using assms
  by (auto simp: normalize_object_def vector_entry_def uuid_entry_def Let_def map_add_def
      split: option.splits)

text \<open>
  Claim C9. For every MMR search, by vector or by text: no document returned from the
  MMR path carries a vector in its metadata. And when a provider is configured, the
  tenant fits the store, the keyword arguments do not clash, and the engine answers with
  candidates that carry the text key and a default vector, then the one engine call is
  the vector search with limit \<^verbatim>\<open>fetch_k\<close>, \<^verbatim>\<open>include_vector=True\<close> and the query
  vector; the re-ranker is run on the query vector and the candidates' vectors; and for
  distinct selected indices within the candidates, the result is the selected candidates
  in that order, each without its \<^verbatim>\<open>vector\<close> entry. The search by text is the search by
  vector with the query vector \<^verbatim>\<open>embed_query(query)\<close>, so it issues that call and returns
  that result; without a provider it raises \<^verbatim>\<open>ValueError\<close> and issues no call.
\<close>

theorem mmr_results_carry_no_vector:
  "(max_marginal_relevance_search_by_vector eng str_of mmr st query_vector k fetch_k
       lambda_mult kw = (Inr docs, calls)
     \<or> max_marginal_relevance_search eng str_of mmr st query k fetch_k lambda_mult kw
         = (Inr docs, calls)
     \<longrightarrow> (\<forall>d\<in>set docs. metadata d ''vector'' = None))
   \<and> (embedding st \<noteq> None
       \<and> (kw_tenant kw \<noteq> None) = multi_tenancy_enabled st
       \<and> kw_search_method kw = None
       \<and> ''include_vector'' \<notin> set (map fst (kw_others kw))
       \<and> ''near_vector'' \<notin> set (map fst (kw_others kw))
       \<and> \<not> truthy (kw_return_score kw)
       \<and> q = Near_vector fetch_k (with_text_key (text_key st) (kw_return_properties kw))
               ((''include_vector'', PBool True) # (''near_vector'', PVec query_vector)
                  # kw_others kw)
       \<and> eng (kw_tenant kw) q = Objects objs
       \<and> length vectors = length objs
       \<and> (\<forall>i<length objs.
              obj_properties (objs ! i) (text_key st) \<noteq> None
              \<and> obj_vector (objs ! i) \<noteq> []
              \<and> map_of (obj_vector (objs ! i)) ''default'' = Some (vectors ! i))
       \<and> selected = mmr query_vector (map PVec vectors) k lambda_mult
       \<and> distinct selected \<and> (\<forall>i\<in>set selected. i < length objs)
      \<longrightarrow> (\<exists>hits.
             collect_docs (normalize_object str_of (text_key st) False (kw_return_uuids kw)) objs
               = Inr hits
             \<and> max_marginal_relevance_search_by_vector eng str_of mmr st query_vector k fetch_k
                 lambda_mult kw
               = (Inr (map (\<lambda>i. without_vector (hit_document (hits ! i))) selected),
                  [(kw_tenant kw, q)])
             \<and> (\<forall>emb. embedding st = Some emb \<and> query_vector = embed_query emb (Some query)
                  \<longrightarrow> max_marginal_relevance_search eng str_of mmr st query k fetch_k
                        lambda_mult kw
                      = (Inr (map (\<lambda>i. without_vector (hit_document (hits ! i))) selected),
                         [(kw_tenant kw, q)]))))
   \<and> (\<forall>emb. embedding st = Some emb
         \<longrightarrow> max_marginal_relevance_search eng str_of mmr st query k fetch_k lambda_mult kw
             = max_marginal_relevance_search_by_vector eng str_of mmr st
                 (embed_query emb (Some query)) k fetch_k lambda_mult kw)
   \<and> (embedding st = None
       \<longrightarrow> max_marginal_relevance_search eng str_of mmr st query k fetch_k lambda_mult kw
           = (Inl (ValueError
                ''max_marginal_relevance_search requires a suitable Embeddings object''), []))"
proof -
  have link: "max_marginal_relevance_search eng str_of mmr st query k fetch_k lambda_mult kw
             = max_marginal_relevance_search_by_vector eng str_of mmr st
                 (embed_query emb (Some query)) k fetch_k lambda_mult kw"
    if "embedding st = Some emb" for emb
    using that by (simp add: max_marginal_relevance_search_def)
  have refused: "max_marginal_relevance_search eng str_of mmr st query k fetch_k lambda_mult kw
           = (Inl (ValueError
                ''max_marginal_relevance_search requires a suitable Embeddings object''), [])"
    if "embedding st = None"
    using that by (simp add: max_marginal_relevance_search_def)
  have safe: "\<forall>d\<in>set docs. metadata d ''vector'' = None"
    if "max_marginal_relevance_search_by_vector eng str_of mmr st query_vector k fetch_k
       lambda_mult kw = (Inr docs, calls)
     \<or> max_marginal_relevance_search eng str_of mmr st query k fetch_k lambda_mult kw
         = (Inr docs, calls)"
  proof -
    from that have "\<exists>v. max_marginal_relevance_search_by_vector eng str_of mmr st v k fetch_k
       lambda_mult kw = (Inr docs, calls)"
      by (auto simp: max_marginal_relevance_search_def split: option.splits)
    then have "\<exists>results selected. mmr_collect results selected = Inr docs"
      by (auto simp: max_marginal_relevance_search_by_vector_def
          split: if_splits prod.splits sum.splits)
    then obtain results selected where "mmr_collect results selected = Inr docs"
      by blast
    then show ?thesis
      using mmr_collect_no_vector by blast
  qed
  have run: "\<exists>hits.
             collect_docs (normalize_object str_of (text_key st) False (kw_return_uuids kw)) objs
               = Inr hits
             \<and> max_marginal_relevance_search_by_vector eng str_of mmr st query_vector k fetch_k
                 lambda_mult kw
               = (Inr (map (\<lambda>i. without_vector (hit_document (hits ! i))) selected),
                  [(kw_tenant kw, q)])
             \<and> (\<forall>emb. embedding st = Some emb \<and> query_vector = embed_query emb (Some query)
                  \<longrightarrow> max_marginal_relevance_search eng str_of mmr st query k fetch_k
                        lambda_mult kw
                      = (Inr (map (\<lambda>i. without_vector (hit_document (hits ! i))) selected),
                         [(kw_tenant kw, q)]))"
    if a: "embedding st \<noteq> None
       \<and> (kw_tenant kw \<noteq> None) = multi_tenancy_enabled st
       \<and> kw_search_method kw = None
       \<and> ''include_vector'' \<notin> set (map fst (kw_others kw))
       \<and> ''near_vector'' \<notin> set (map fst (kw_others kw))
       \<and> \<not> truthy (kw_return_score kw)
       \<and> q = Near_vector fetch_k (with_text_key (text_key st) (kw_return_properties kw))
               ((''include_vector'', PBool True) # (''near_vector'', PVec query_vector)
                  # kw_others kw)
       \<and> eng (kw_tenant kw) q = Objects objs
       \<and> length vectors = length objs
       \<and> (\<forall>i<length objs.
              obj_properties (objs ! i) (text_key st) \<noteq> None
              \<and> obj_vector (objs ! i) \<noteq> []
              \<and> map_of (obj_vector (objs ! i)) ''default'' = Some (vectors ! i))
       \<and> selected = mmr query_vector (map PVec vectors) k lambda_mult
       \<and> distinct selected \<and> (\<forall>i\<in>set selected. i < length objs)"
  proof -
    from a have emb: "embedding st \<noteq> None"
    and ten: "(kw_tenant kw \<noteq> None) = multi_tenancy_enabled st"
    and kws: "kw_search_method kw = None" "''include_vector'' \<notin> set (map fst (kw_others kw))"
      "''near_vector'' \<notin> set (map fst (kw_others kw))" "\<not> truthy (kw_return_score kw)"
    and q: "q = Near_vector fetch_k (with_text_key (text_key st) (kw_return_properties kw))
               ((''include_vector'', PBool True) # (''near_vector'', PVec query_vector)
                  # kw_others kw)"
    and answer: "eng (kw_tenant kw) q = Objects objs"
    and lv: "length vectors = length objs"
    and objs: "\<forall>i<length objs.
              obj_properties (objs ! i) (text_key st) \<noteq> None
              \<and> obj_vector (objs ! i) \<noteq> []
              \<and> map_of (obj_vector (objs ! i)) ''default'' = Some (vectors ! i)"
    and sel: "selected = mmr query_vector (map PVec vectors) k lambda_mult"
    and dist: "distinct selected" and range: "\<forall>i\<in>set selected. i < length objs"
    by blast+
  let ?norm = "normalize_object str_of (text_key st) False (kw_return_uuids kw)"
  have wf: "\<exists>h. ?norm obj = Inr h" if "obj \<in> set objs" for obj
  proof -
    from that obtain i where "i < length objs" "obj = objs ! i"
      by (auto simp: in_set_conv_nth)
    with objs show ?thesis by (intro normalize_object_total) auto
  qed
  then obtain hits where hits: "collect_docs ?norm objs = Inr hits"
    using collect_docs_total [of objs ?norm] by blast
  then have len: "length hits = length objs"
    and each: "\<forall>i<length objs. ?norm (objs ! i) = Inr (hits ! i)"
    by (simp_all add: collect_docs_Inr_iff)
  have vec: "\<exists>d. hits ! i = Doc d \<and> metadata d ''vector'' = Some (PVec (vectors ! i))"
    if "i < length objs" for i
  proof -
    have "?norm (objs ! i) = Inr (hits ! i)" using that each by simp
    moreover have "obj_vector (objs ! i) \<noteq> []"
      and "map_of (obj_vector (objs ! i)) ''default'' = Some (vectors ! i)"
      using that objs by simp_all
    ultimately show ?thesis by (rule normalize_object_vector)
  qed
  have rv: "result_vectors hits = Inr (map PVec vectors)"
  proof (rule result_vectors_total)
    show "length (map PVec vectors) = length hits" using lv len by simp
    show "\<forall>i<length hits. \<exists>d. hits ! i = Doc d
             \<and> metadata d ''vector'' = Some (map PVec vectors ! i)"
      using vec len lv by simp
  qed
  have guard: "\<not> (''near_vector'' \<noteq> ''near_text'' \<and> Option.is_none (embedding st))"
    using emb by (simp add: Option.is_none_def)
  have search: "perform_search eng str_of st None fetch_k (kw_keyword_query kw)
                (truthy (kw_return_score kw)) ''near_vector'' (kw_tenant kw)
                (kw_return_properties kw) (kw_return_uuids kw)
                ((''include_vector'', PBool True) # (''near_vector'', PVec query_vector)
                   # kw_others kw)
        = (Inr hits, [(kw_tenant kw, q)])"
    using guard answer hits kws(4)
    by (simp add: perform_search_def Let_def tenant_context_match [OF ten] dispatch_query_def
        q [symmetric])
  have "\<forall>i\<in>set selected. i < length hits
           \<and> (\<exists>d v. hits ! i = Doc d \<and> metadata d ''vector'' = Some v)"
    using range vec len by fastforce
  with dist have "mmr_collect hits selected
        = Inr (map (\<lambda>i. without_vector (hit_document (hits ! i))) selected)"
    by (rule mmr_collect_distinct)
  then have byv: "max_marginal_relevance_search_by_vector eng str_of mmr st query_vector k
                 fetch_k lambda_mult kw
               = (Inr (map (\<lambda>i. without_vector (hit_document (hits ! i))) selected),
                  [(kw_tenant kw, q)])"
    using kws search rv sel by (simp add: max_marginal_relevance_search_by_vector_def)
  have by_text: "\<forall>emb. embedding st = Some emb \<and> query_vector = embed_query emb (Some query)
                  \<longrightarrow> max_marginal_relevance_search eng str_of mmr st query k fetch_k
                        lambda_mult kw
                      = (Inr (map (\<lambda>i. without_vector (hit_document (hits ! i))) selected),
                         [(kw_tenant kw, q)])"
    using byv link by auto
  show ?thesis
    by (rule exI [of _ hits]) (intro conjI hits byv by_text)
  qed
  show ?thesis
  proof (intro conjI)
    show "max_marginal_relevance_search_by_vector eng str_of mmr st query_vector k fetch_k
       lambda_mult kw = (Inr docs, calls)
     \<or> max_marginal_relevance_search eng str_of mmr st query k fetch_k lambda_mult kw
         = (Inr docs, calls)
     \<longrightarrow> (\<forall>d\<in>set docs. metadata d ''vector'' = None)"
      using safe by blast
    show "\<forall>emb. embedding st = Some emb
         \<longrightarrow> max_marginal_relevance_search eng str_of mmr st query k fetch_k lambda_mult kw
             = max_marginal_relevance_search_by_vector eng str_of mmr st
                 (embed_query emb (Some query)) k fetch_k lambda_mult kw"
      using link by blast
    show "embedding st = None
       \<longrightarrow> max_marginal_relevance_search eng str_of mmr st query k fetch_k lambda_mult kw
           = (Inl (ValueError
                ''max_marginal_relevance_search requires a suitable Embeddings object''), [])"
      using refused by blast
  qed (rule impI, rule run)
qed

text \<open>
  The theorem on the engine that answers with two candidates and the re-ranker that
  selects the second, then the first: by the query vector \<open>[1, 0]\<close>, and by the text
  \<^verbatim>\<open>hello\<close>, which the provider embeds as \<open>[1, 0]\<close>.
\<close>

theorem mmr_results_carry_no_vector_witness:
  "\<exists>docs. max_marginal_relevance_search_by_vector two_engine demo_str demo_mmr
         demo_store_embedded [1, 0] 2 20 (1 / 2) demo_kwargs
       = (Inr docs,
          [(None, Near_vector 20 None
                    [(''include_vector'', PBool True), (''near_vector'', PVec [1, 0])])])
     \<and> max_marginal_relevance_search two_engine demo_str demo_mmr demo_store_embedded
         ''hello'' 2 20 (1 / 2) demo_kwargs
       = (Inr docs,
          [(None, Near_vector 20 None
                    [(''include_vector'', PBool True), (''near_vector'', PVec [1, 0])])])
     \<and> map page_content docs = [PStr ''world'', PStr ''hello'']
     \<and> map (\<lambda>d. metadata d ''vector'') docs = [None, None]
     \<and> map (\<lambda>d. metadata d ''source'') docs = [Some (PStr ''y''), Some (PStr ''x'')]"
proof -
  let ?q = "Near_vector 20 None
              [(''include_vector'', PBool True), (''near_vector'', PVec [1, 0])]"
  let ?objs = "[demo_object, demo_object2]"
  let ?vectors = "[[1, 0], [0, 1 :: real]]"
  have pre: "embedding demo_store_embedded \<noteq> None
       \<and> (kw_tenant demo_kwargs \<noteq> None) = multi_tenancy_enabled demo_store_embedded
       \<and> kw_search_method demo_kwargs = None
       \<and> ''include_vector'' \<notin> set (map fst (kw_others demo_kwargs))
       \<and> ''near_vector'' \<notin> set (map fst (kw_others demo_kwargs))
       \<and> \<not> truthy (kw_return_score demo_kwargs)
       \<and> ?q = Near_vector 20
               (with_text_key (text_key demo_store_embedded) (kw_return_properties demo_kwargs))
               ((''include_vector'', PBool True) # (''near_vector'', PVec [1, 0])
                  # kw_others demo_kwargs)
       \<and> two_engine (kw_tenant demo_kwargs) ?q = Objects ?objs
       \<and> length ?vectors = length ?objs
       \<and> (\<forall>i<length ?objs.
              obj_properties (?objs ! i) (text_key demo_store_embedded) \<noteq> None
              \<and> obj_vector (?objs ! i) \<noteq> []
              \<and> map_of (obj_vector (?objs ! i)) ''default'' = Some (?vectors ! i))
       \<and> [1, 0] = demo_mmr [1, 0] (map PVec ?vectors) 2 (1 / 2)
       \<and> distinct [1, 0 :: nat] \<and> (\<forall>i\<in>set [1, 0 :: nat]. i < length ?objs)"
    by (simp add: demo_store_embedded_def demo_store_def demo_kwargs_def truthy_def
        with_text_key_def two_engine_def demo_object_def demo_object2_def demo_mmr_def
        less_Suc_eq)
  from mmr_results_carry_no_vector [where eng = two_engine and str_of = demo_str
      and mmr = demo_mmr and st = demo_store_embedded and query_vector = "[1, 0]" and k = 2
      and fetch_k = 20 and lambda_mult = "1 / 2" and kw = demo_kwargs and q = ?q
      and objs = ?objs and vectors = ?vectors and selected = "[1, 0]"
      and query = "''hello''"] pre
  obtain hits where
    hits: "collect_docs (normalize_object demo_str (text_key demo_store_embedded) False
             (kw_return_uuids demo_kwargs)) ?objs = Inr hits"
    and run: "max_marginal_relevance_search_by_vector two_engine demo_str demo_mmr
         demo_store_embedded [1, 0] 2 20 (1 / 2) demo_kwargs
       = (Inr (map (\<lambda>i. without_vector (hit_document (hits ! i))) [1, 0]),
          [(kw_tenant demo_kwargs, ?q)])"
    and by_text: "\<forall>emb. embedding demo_store_embedded = Some emb
           \<and> [1, 0] = embed_query emb (Some ''hello'')
         \<longrightarrow> max_marginal_relevance_search two_engine demo_str demo_mmr demo_store_embedded
               ''hello'' 2 20 (1 / 2) demo_kwargs
             = (Inr (map (\<lambda>i. without_vector (hit_document (hits ! i))) [1, 0]),
                [(kw_tenant demo_kwargs, ?q)])"
    by blast
  have "embedding demo_store_embedded = Some demo_embedder
           \<and> [1, 0] = embed_query demo_embedder (Some ''hello'')"
    by (simp add: demo_store_embedded_def demo_embedder_def)
  with by_text have run_text:
    "max_marginal_relevance_search two_engine demo_str demo_mmr demo_store_embedded
         ''hello'' 2 20 (1 / 2) demo_kwargs
       = (Inr (map (\<lambda>i. without_vector (hit_document (hits ! i))) [1, 0]),
          [(kw_tenant demo_kwargs, ?q)])"
    by blast
  from collect_docs_Inr_iff [THEN iffD1, OF hits] have
    "\<forall>i<length ?objs. normalize_object demo_str (text_key demo_store_embedded) False
        (kw_return_uuids demo_kwargs) (?objs ! i) = Inr (hits ! i)"
    by blast
  then have
    "normalize_object demo_str ''text'' False False demo_object = Inr (hits ! 0)"
    "normalize_object demo_str ''text'' False False demo_object2 = Inr (hits ! 1)"
    by (simp_all add: demo_store_embedded_def demo_store_def demo_kwargs_def less_Suc_eq)
  moreover have "\<exists>d. normalize_object demo_str ''text'' False False demo_object = Inr (Doc d)
          \<and> page_content d = PStr ''hello'' \<and> metadata d ''source'' = Some (PStr ''x'')"
    "\<exists>d. normalize_object demo_str ''text'' False False demo_object2 = Inr (Doc d)
          \<and> page_content d = PStr ''world'' \<and> metadata d ''source'' = Some (PStr ''y'')"
    by (simp_all add: normalize_object_def vector_entry_def uuid_entry_def demo_object_def
        demo_object2_def filtered_metadata_def Let_def map_add_def)
  ultimately have "page_content (hit_document (hits ! 0)) = PStr ''hello''"
    "page_content (hit_document (hits ! 1)) = PStr ''world''"
    "metadata (hit_document (hits ! 0)) ''source'' = Some (PStr ''x'')"
    "metadata (hit_document (hits ! 1)) ''source'' = Some (PStr ''y'')"
    by auto
  then show ?thesis
    using run run_text by (simp add: without_vector_def demo_kwargs_def)
qed

section \<open>Ingestion\<close>

lemma add_loop_total:
  assumes "\<forall>j<length texts. \<exists>obj. mk (i + j) (texts ! j) = Inr obj"
  shows "\<exists>new. add_loop mk i texts added ids = Inr (added @ new, ids @ map bo_uuid new)
           \<and> length new = length texts
           \<and> (\<forall>j<length texts. mk (i + j) (texts ! j) = Inr (new ! j))"
  using assms
proof (induction texts arbitrary: i added ids)
  case Nil
  then show ?case by simp
next
  case (Cons t texts)
  from Cons.prems obtain obj where obj: "mk i t = Inr obj" by fastforce
  have "\<forall>j<length texts. \<exists>obj. mk (Suc i + j) (texts ! j) = Inr obj"
    using Cons.prems by fastforce
  from Cons.IH [OF this, of "added @ [obj]" "ids @ [bo_uuid obj]"]
  obtain new where new: "add_loop mk (Suc i) texts (added @ [obj]) (ids @ [bo_uuid obj])
        = Inr ((added @ [obj]) @ new, (ids @ [bo_uuid obj]) @ map bo_uuid new)"
    "length new = length texts"
    "\<forall>j<length texts. mk (Suc i + j) (texts ! j) = Inr (new ! j)"
    by blast
  have "\<forall>j<length (t # texts). mk (i + j) ((t # texts) ! j) = Inr ((obj # new) ! j)"
    using obj new(3) by (auto simp: nth_Cons split: nat.splits)
  with obj new(1,2) show ?case
    by (intro exI [of _ "obj # new"]) simp
qed

lemma set_map_filter_eq: "set (List.map_filter f xs) = {y. \<exists>x\<in>set xs. f x = Some y}"
  by (induction xs) (auto split: option.splits)

lemma failed_objects_member:
  assumes "i < length added" and "failure i (added ! i) = Some m"
  shows "(bo_uuid (added ! i), m) \<in> set (failed_objects failure added)"
proof -
  have "(i, added ! i) \<in> set (enumerate 0 added)"
    using assms(1) by (simp add: in_set_enumerate_eq)
  then show ?thesis
    using assms(2) by (force simp: failed_objects_def set_map_filter_eq)
qed

lemma tenant_setup_total:
  assumes "tenant = None \<or> tenant = Some [] \<or> multi_tenancy_enabled st"
  shows "\<exists>created info. tenant_setup st tenants tenant = Inr (created, info)"
  using assms
  by (auto simp: tenant_setup_def does_tenant_exist_def split: option.splits)

lemma make_object_total:
  assumes "case metadatas of None \<Rightarrow> True | Some mds \<Rightarrow> i < length mds"
    and "case embeddings of None \<Rightarrow> True | Some es \<Rightarrow> i < length es"
    and "case uuids of Some us \<Rightarrow> i < length us
         | None \<Rightarrow> (case ids of Some us \<Rightarrow> i < length us | None \<Rightarrow> True)"
  shows "\<exists>obj. make_object uuid4 st metadatas tenant uuids ids embeddings i text = Inr obj
          \<and> bo_uuid obj = (case uuids of Some us \<Rightarrow> us ! i
                           | None \<Rightarrow> (case ids of Some us \<Rightarrow> us ! i | None \<Rightarrow> uuid4 i))
          \<and> data_properties (text_key st) text metadatas i = Inr (bo_properties obj)"
  using assms
  by (auto simp: make_object_def data_properties_def choose_id_def choose_vector_def
      split: option.splits)

text \<open>
  Claim C2. For every call to \<^verbatim>\<open>add_texts\<close> with \<open>N\<close> texts and, if given, metadata of
  length \<open>N\<close> (the provider, if any, gives one vector per text; caller ids, if given,
  cover the texts; a tenant is named only on a multi-tenant store), whichever writes of
  the batch fail: the call does not raise and returns exactly \<open>N\<close> ids; the \<open>i\<close>-th id is
  the one the \<open>i\<close>-th text was submitted under, with the properties built from that text;
  and for every write that failed, its id is in the returned list all the same and an
  error line with that id and the reason is logged.
\<close>

theorem add_texts_returns_every_id:
  assumes md: "case metadatas of None \<Rightarrow> True | Some mds \<Rightarrow> length mds = length texts"
    and emb: "case embedding st of None \<Rightarrow> True
              | Some e \<Rightarrow> length (embed_documents e texts) = length texts"
    and given: "case uuids of Some us \<Rightarrow> length texts \<le> length us
                | None \<Rightarrow> (case ids of Some us \<Rightarrow> length texts \<le> length us | None \<Rightarrow> True)"
    and ten: "tenant = None \<or> tenant = Some [] \<or> multi_tenancy_enabled st"
  shows "\<exists>returned eff.
      add_texts uuid4 tenants failure st texts metadatas tenant uuids ids = (Inr returned, eff)
      \<and> length returned = length texts
      \<and> length (batch eff) = length texts
      \<and> (\<forall>i<length texts.
            returned ! i = (case uuids of Some us \<Rightarrow> us ! i
                            | None \<Rightarrow> (case ids of Some us \<Rightarrow> us ! i | None \<Rightarrow> uuid4 i))
            \<and> bo_uuid (batch eff ! i) = returned ! i
            \<and> data_properties (text_key st) (texts ! i) metadatas i
                = Inr (bo_properties (batch eff ! i))
            \<and> (\<forall>m. failure i (batch eff ! i) = Some m
                  \<longrightarrow> (ERROR, err_message (returned ! i, m)) \<in> set (log_lines eff)))"
proof -
  obtain created info where ts: "tenant_setup st tenants tenant = Inr (created, info)"
    using tenant_setup_total [OF ten] by blast
  define embeddings where
    "embeddings = (case embedding st of
                     Some emb \<Rightarrow> Some (embed_documents emb texts) | None \<Rightarrow> None)"
  define mk where "mk = make_object uuid4 st metadatas tenant uuids ids embeddings"
  have one: "\<exists>obj. mk i (texts ! i) = Inr obj
          \<and> bo_uuid obj = (case uuids of Some us \<Rightarrow> us ! i
                           | None \<Rightarrow> (case ids of Some us \<Rightarrow> us ! i | None \<Rightarrow> uuid4 i))
          \<and> data_properties (text_key st) (texts ! i) metadatas i = Inr (bo_properties obj)"
    if "i < length texts" for i
    unfolding mk_def
  proof (rule make_object_total)
    show "case metadatas of None \<Rightarrow> True | Some mds \<Rightarrow> i < length mds"
      using md that by (simp split: option.splits)
    show "case embeddings of None \<Rightarrow> True | Some es \<Rightarrow> i < length es"
      using emb that by (simp add: embeddings_def split: option.splits)
    show "case uuids of Some us \<Rightarrow> i < length us
         | None \<Rightarrow> (case ids of Some us \<Rightarrow> i < length us | None \<Rightarrow> True)"
      using given that by (simp split: option.splits)
  qed
  then have "\<forall>j<length texts. \<exists>obj. mk (0 + j) (texts ! j) = Inr obj"
    by auto
  from add_loop_total [OF this, of "[]" "[]"]
  obtain new where loop: "add_loop mk 0 texts [] [] = Inr (new, map bo_uuid new)"
    and len: "length new = length texts"
    and nth: "\<forall>j<length texts. mk j (texts ! j) = Inr (new ! j)"
    by auto
  define eff where
    "eff = \<lparr>created_tenants = created, batch = new,
            log_lines = info @ map (\<lambda>f. (ERROR, err_message f)) (failed_objects failure new)\<rparr>"
  have run: "add_texts uuid4 tenants failure st texts metadatas tenant uuids ids
             = (Inr (map bo_uuid new), eff)"
    using ts loop
    by (simp add: add_texts_def Let_def eff_def mk_def embeddings_def)
  have per_text: "map bo_uuid new ! i
              = (case uuids of Some us \<Rightarrow> us ! i
                 | None \<Rightarrow> (case ids of Some us \<Rightarrow> us ! i | None \<Rightarrow> uuid4 i))
            \<and> bo_uuid (batch eff ! i) = map bo_uuid new ! i
            \<and> data_properties (text_key st) (texts ! i) metadatas i
                = Inr (bo_properties (batch eff ! i))
            \<and> (\<forall>m. failure i (batch eff ! i) = Some m
                  \<longrightarrow> (ERROR, err_message (map bo_uuid new ! i, m)) \<in> set (log_lines eff))"
    if i: "i < length texts" for i
  proof -
    from one [OF i] nth i have
      u: "bo_uuid (new ! i) = (case uuids of Some us \<Rightarrow> us ! i
                           | None \<Rightarrow> (case ids of Some us \<Rightarrow> us ! i | None \<Rightarrow> uuid4 i))"
      and p: "data_properties (text_key st) (texts ! i) metadatas i
                = Inr (bo_properties (new ! i))"
      by auto
    have "(ERROR, err_message (bo_uuid (new ! i), m)) \<in> set (log_lines eff)"
      if "failure i (new ! i) = Some m" for m
      using failed_objects_member [of i new failure m] that i len
      by (simp add: eff_def image_iff) blast
    then show ?thesis
      using u p i len by (simp add: eff_def)
  qed
  have l1: "length (map bo_uuid new) = length texts" using len by simp
  have l2: "length (batch eff) = length texts" using len by (simp add: eff_def)
  show ?thesis
    by (rule exI [of _ "map bo_uuid new"], rule exI [of _ eff])
      (intro conjI run l1 l2 allI impI per_text)
qed

text \<open>
  The theorem on two texts with caller ids, where the second write fails with
  \<^verbatim>\<open>disk full\<close>.
\<close>

theorem add_texts_returns_every_id_witness:
  "fst (add_texts demo_uuid4 [] demo_failure demo_store_embedded [''hello'', ''world'']
          (Some [[''source'' \<mapsto> PStr ''x''], [''source'' \<mapsto> PStr ''y'']]) None None
          (Some [''id-a'', ''id-b'']))
     = Inr [''id-a'', ''id-b'']
   \<and> (ERROR, err_message (''id-b'', ''disk full''))
       \<in> set (log_lines (snd (add_texts demo_uuid4 [] demo_failure demo_store_embedded
                 [''hello'', ''world'']
                 (Some [[''source'' \<mapsto> PStr ''x''], [''source'' \<mapsto> PStr ''y'']]) None None
                 (Some [''id-a'', ''id-b'']))))"
proof -
  let ?texts = "[''hello'', ''world'']"
  let ?mds = "Some [[''source'' \<mapsto> PStr ''x''], [''source'' \<mapsto> PStr ''y'']]"
  have md: "case ?mds of None \<Rightarrow> True | Some mds \<Rightarrow> length mds = length ?texts"
    by simp
  have emb: "case embedding demo_store_embedded of None \<Rightarrow> True
              | Some e \<Rightarrow> length (embed_documents e ?texts) = length ?texts"
    by (simp add: demo_store_embedded_def demo_embedder_def)
  have given: "case (None :: string list option) of Some us \<Rightarrow> length ?texts \<le> length us
       | None \<Rightarrow> (case Some [''id-a'', ''id-b''] of Some us \<Rightarrow> length ?texts \<le> length us
                   | None \<Rightarrow> True)"
    by simp
  have ten: "(None :: string option) = None \<or> (None :: string option) = Some []
               \<or> multi_tenancy_enabled demo_store_embedded"
    by simp
  from add_texts_returns_every_id [OF md emb given ten, of demo_uuid4 "[]" demo_failure]
  obtain returned eff where
    r: "add_texts demo_uuid4 [] demo_failure demo_store_embedded ?texts ?mds None None
          (Some [''id-a'', ''id-b'']) = (Inr returned, eff)"
    and len: "length returned = length ?texts"
    and all: "\<forall>i<length ?texts.
            returned ! i = (case (None :: string list option) of Some us \<Rightarrow> us ! i
                            | None \<Rightarrow> (case Some [''id-a'', ''id-b''] of Some us \<Rightarrow> us ! i
                                        | None \<Rightarrow> demo_uuid4 i))
            \<and> bo_uuid (batch eff ! i) = returned ! i
            \<and> data_properties (text_key demo_store_embedded) (?texts ! i) ?mds i
                = Inr (bo_properties (batch eff ! i))
            \<and> (\<forall>m. demo_failure i (batch eff ! i) = Some m
                  \<longrightarrow> (ERROR, err_message (returned ! i, m)) \<in> set (log_lines eff))"
    by blast
  from all [rule_format, of 0] all [rule_format, of 1]
  have "returned ! 0 = ''id-a''" and "returned ! 1 = ''id-b''"
    and "(ERROR, err_message (returned ! 1, ''disk full'')) \<in> set (log_lines eff)"
    by (auto simp: demo_failure_def)
  moreover from this len have "returned = [''id-a'', ''id-b'']"
    by (cases returned; cases "tl returned") auto
  ultimately show ?thesis using r by simp
qed

end
